theory Spec2Isabelle
  imports Complex_Main
begin

section \<open>Strings and character classes\<close>

text \<open>
  The servers are TypeScript; their strings are modelled as \<^typ>\<open>string\<close>, one
  \<^typ>\<open>char\<close> per code unit. The character classes below are the ASCII part of the
  JavaScript classes, which is all that the patterns of \<^verbatim>\<open>utils.ts\<close> name
  explicitly: \<^verbatim>\<open>\d\<close> is \<^verbatim>\<open>[0-9]\<close>, \<^verbatim>\<open>\w\<close> is
  \<^verbatim>\<open>[A-Za-z0-9_]\<close>, and \<^verbatim>\<open>\s\<close> (also the set removed by
  \<^verbatim>\<open>trim\<close>) is tab, line feed, vertical tab, form feed, carriage return and space.
  A character with the top bit set is in none of the classes and has no case.
\<close>

definition char_code :: "char \<Rightarrow> nat" where
  "char_code c = of_char c"

definition is_digit :: "char \<Rightarrow> bool" where
  "is_digit c \<longleftrightarrow> 48 \<le> char_code c \<and> char_code c \<le> 57"

definition is_upper :: "char \<Rightarrow> bool" where
  "is_upper c \<longleftrightarrow> 65 \<le> char_code c \<and> char_code c \<le> 90"

definition is_lower :: "char \<Rightarrow> bool" where
  "is_lower c \<longleftrightarrow> 97 \<le> char_code c \<and> char_code c \<le> 122"

definition is_word :: "char \<Rightarrow> bool" where
  "is_word c \<longleftrightarrow> is_upper c \<or> is_lower c \<or> is_digit c \<or> c = CHR ''_''"

definition is_space :: "char \<Rightarrow> bool" where
  "is_space c \<longleftrightarrow> (9 \<le> char_code c \<and> char_code c \<le> 13) \<or> char_code c = 32"

text \<open>\<^verbatim>\<open>String.prototype.toUpperCase\<close>, character by character.\<close>

definition upper_char :: "char \<Rightarrow> char" where
  "upper_char c = (if is_lower c then char_of (char_code c - 32) else c)"

definition toUpperCase :: "string \<Rightarrow> string" where
  "toUpperCase s = map upper_char s"

text \<open>\<^verbatim>\<open>String.prototype.trim\<close>: white space is removed at both ends.\<close>

definition trim :: "string \<Rightarrow> string" where
  "trim s = rev (dropWhile is_space (rev (dropWhile is_space s)))"

text \<open>\<^verbatim>\<open>String.prototype.startsWith\<close>.\<close>

definition startsWith :: "string \<Rightarrow> string \<Rightarrow> bool" where
  "startsWith s p \<longleftrightarrow> take (length p) s = p"

text \<open>\<^verbatim>\<open>String.prototype.includes\<close>: the pattern occurs at some offset.\<close>

definition str_includes :: "string \<Rightarrow> string \<Rightarrow> bool" where
  "str_includes s p \<longleftrightarrow> (\<exists>i \<in> set [0 ..< Suc (length s)]. take (length p) (drop i s) = p)"

text \<open>\<^verbatim>\<open>Array.prototype.join\<close> on strings.\<close>

fun join :: "string \<Rightarrow> string list \<Rightarrow> string" where
  "join sep [] = []"
| "join sep [x] = x"
| "join sep (x # y # ys) = x @ sep @ join sep (y # ys)"

section \<open>Regular expressions\<close>

text \<open>
  The patterns tested in \<^verbatim>\<open>utils.ts\<close> are all anchored at both ends
  (\<^verbatim>\<open>/^...$/\<close>, no \<^verbatim>\<open>m\<close> flag), so \<^verbatim>\<open>test\<close> decides whether the whole
  string is in the language of the pattern. The matcher consumes the string one
  character at a time, rewriting the pattern to what may still follow.
\<close>

datatype rx =
    RNone
  | REmpty
  | RClass "char \<Rightarrow> bool"
  | RSeq rx rx
  | RAlt rx rx
  | RStar rx

fun accepts_empty :: "rx \<Rightarrow> bool" where
  "accepts_empty RNone = False"
| "accepts_empty REmpty = True"
| "accepts_empty (RClass P) = False"
| "accepts_empty (RSeq a b) = (accepts_empty a \<and> accepts_empty b)"
| "accepts_empty (RAlt a b) = (accepts_empty a \<or> accepts_empty b)"
| "accepts_empty (RStar a) = True"

fun after_char :: "char \<Rightarrow> rx \<Rightarrow> rx" where
  "after_char c RNone = RNone"
| "after_char c REmpty = RNone"
| "after_char c (RClass P) = (if P c then REmpty else RNone)"
| "after_char c (RSeq a b) =
     (if accepts_empty a then RAlt (RSeq (after_char c a) b) (after_char c b)
      else RSeq (after_char c a) b)"
| "after_char c (RAlt a b) = RAlt (after_char c a) (after_char c b)"
| "after_char c (RStar a) = RSeq (after_char c a) (RStar a)"

fun regex_test :: "rx \<Rightarrow> string \<Rightarrow> bool" where
  "regex_test r [] = accepts_empty r"
| "regex_test r (c # cs) = regex_test (after_char c r) cs"

text \<open>Pattern syntax: a literal character, \<^verbatim>\<open>x+\<close>, and \<^verbatim>\<open>x{n,}\<close>.\<close>

definition RChar :: "char \<Rightarrow> rx" where
  "RChar c = RClass (\<lambda>d. d = c)"

definition RPlus :: "rx \<Rightarrow> rx" where
  "RPlus r = RSeq r (RStar r)"

fun RAtLeast :: "nat \<Rightarrow> rx \<Rightarrow> rx" where
  "RAtLeast 0 r = RStar r"
| "RAtLeast (Suc n) r = RSeq r (RAtLeast n r)"

fun RLit :: "string \<Rightarrow> rx" where
  "RLit [] = REmpty"
| "RLit (c # cs) = RSeq (RChar c) (RLit cs)"

text \<open>The same literal under the \<^verbatim>\<open>i\<close> flag.\<close>

fun RLit_i :: "string \<Rightarrow> rx" where
  "RLit_i [] = REmpty"
| "RLit_i (c # cs) = RSeq (RClass (\<lambda>d. upper_char d = upper_char c)) (RLit_i cs)"

section \<open>Identifier validators\<close>

text \<open>\<^verbatim>\<open>isValidPMID\<close>: \<^verbatim>\<open>/^\d+$/.test(pmid)\<close>.\<close>

definition isValidPMID :: "string \<Rightarrow> bool" where
  "isValidPMID pmid = regex_test (RPlus (RClass is_digit)) pmid"

text \<open>\<^verbatim>\<open>isValidDOI\<close>: \<^verbatim>\<open>/^10\.\d{4,}\/\S+$/.test(doi)\<close>.\<close>

definition isValidDOI :: "string \<Rightarrow> bool" where
  "isValidDOI doi =
     regex_test
       (RSeq (RLit ''10.'')
         (RSeq (RAtLeast 4 (RClass is_digit))
           (RSeq (RChar CHR ''/'') (RPlus (RClass (\<lambda>c. \<not> is_space c))))))
       doi"

text \<open>\<^verbatim>\<open>isValidPMCID\<close>: \<^verbatim>\<open>/^PMC\d+$/i.test(pmcid)\<close>.\<close>

definition isValidPMCID :: "string \<Rightarrow> bool" where
  "isValidPMCID pmcid = regex_test (RSeq (RLit_i ''PMC'') (RPlus (RClass is_digit))) pmcid"

text \<open>
  \<^verbatim>\<open>normalizePMCID\<close>:
  \<^verbatim>\<open>const cleaned = pmcid.trim().toUpperCase();
  if (cleaned.startsWith('PMC')) return cleaned; return `PMC${cleaned}`;\<close>
\<close>

definition normalizePMCID :: "string \<Rightarrow> string" where
  "normalizePMCID pmcid =
     (let cleaned = toUpperCase (trim pmcid)
      in if startsWith cleaned ''PMC'' then cleaned else ''PMC'' @ cleaned)"

section \<open>The language of a pattern\<close>

definition conc :: "string set \<Rightarrow> string set \<Rightarrow> string set" where
  "conc A B = {u @ v | u v. u \<in> A \<and> v \<in> B}"

inductive_set star :: "string set \<Rightarrow> string set" for A :: "string set" where
  star_empty: "[] \<in> star A"
| star_more: "u \<in> A \<Longrightarrow> v \<in> star A \<Longrightarrow> u @ v \<in> star A"

fun lang :: "rx \<Rightarrow> string set" where
  "lang RNone = {}"
| "lang REmpty = {[]}"
| "lang (RClass P) = {[c] | c. P c}"
| "lang (RSeq a b) = conc (lang a) (lang b)"
| "lang (RAlt a b) = lang a \<union> lang b"
| "lang (RStar a) = star (lang a)"

lemma accepts_empty_lang: "accepts_empty r \<longleftrightarrow> [] \<in> lang r"
  by (induction r) (auto simp: conc_def intro: star_empty)

lemma star_cons:
  "c # w \<in> star A \<longleftrightarrow> (\<exists>u v. w = u @ v \<and> c # u \<in> A \<and> v \<in> star A)"
proof
  assume "c # w \<in> star A"
  then have "\<And>x. x \<in> star A \<Longrightarrow> x = c # w \<Longrightarrow> \<exists>u v. w = u @ v \<and> c # u \<in> A \<and> v \<in> star A"
  proof -
    fix x assume "x \<in> star A" and "x = c # w"
    then show "\<exists>u v. w = u @ v \<and> c # u \<in> A \<and> v \<in> star A"
    proof (induction arbitrary: rule: star.induct)
      case star_empty
      then show ?case by simp
    next
      case (star_more u v)
      show ?case
      proof (cases u)
        case Nil
        with star_more show ?thesis by simp
      next
        case (Cons d u')
        with star_more.prems have "d = c" and "w = u' @ v" by simp_all
        with Cons star_more.hyps show ?thesis by blast
      qed
    qed
  qed
  with \<open>c # w \<in> star A\<close> show "\<exists>u v. w = u @ v \<and> c # u \<in> A \<and> v \<in> star A" by blast
next
  assume "\<exists>u v. w = u @ v \<and> c # u \<in> A \<and> v \<in> star A"
  then obtain u v where "w = u @ v" "c # u \<in> A" "v \<in> star A" by blast
  then have "(c # u) @ v \<in> star A" by (intro star_more)
  with \<open>w = u @ v\<close> show "c # w \<in> star A" by simp
qed

lemma conc_cons:
  "c # w \<in> conc A B \<longleftrightarrow>
     (\<exists>u v. w = u @ v \<and> c # u \<in> A \<and> v \<in> B) \<or> ([] \<in> A \<and> c # w \<in> B)"
  by (auto simp: conc_def Cons_eq_append_conv)

lemma after_char_lang: "w \<in> lang (after_char c r) \<longleftrightarrow> c # w \<in> lang r"
proof (induction r arbitrary: w)
  case (RSeq a b)
  then show ?case
    by (auto simp: conc_cons accepts_empty_lang) (auto simp: conc_def)
next
  case (RStar a)
  then show ?case by (auto simp: star_cons conc_def)
qed auto

lemma regex_test_lang: "regex_test r s \<longleftrightarrow> s \<in> lang r"
  by (induction s arbitrary: r) (simp_all add: accepts_empty_lang after_char_lang)

lemma star_class: "star {[c] | c. P c} = {s. \<forall>c \<in> set s. P c}"
proof (intro set_eqI iffI)
  fix s assume "s \<in> star {[c] | c. P c}"
  then show "s \<in> {s. \<forall>c \<in> set s. P c}"
    by (induction rule: star.induct) auto
next
  fix s assume "s \<in> {s. \<forall>c \<in> set s. P c}"
  then have "\<forall>c \<in> set s. P c" by simp
  then show "s \<in> star {[c] | c. P c}"
  proof (induction s)
    case Nil
    show ?case by (rule star_empty)
  next
    case (Cons a s)
    then have "[a] \<in> {[c] | c. P c}" and "s \<in> star {[c] | c. P c}" by simp_all
    then have "[a] @ s \<in> star {[c] | c. P c}" by (rule star_more)
    then show ?case by simp
  qed
qed

lemma lang_plus_class: "lang (RPlus (RClass P)) = {s. s \<noteq> [] \<and> (\<forall>c \<in> set s. P c)}"
proof (intro set_eqI iffI)
  fix s assume "s \<in> lang (RPlus (RClass P))"
  then show "s \<in> {s. s \<noteq> [] \<and> (\<forall>c \<in> set s. P c)}"
    by (auto simp: RPlus_def conc_def star_class)
next
  fix s assume "s \<in> {s. s \<noteq> [] \<and> (\<forall>c \<in> set s. P c)}"
  then obtain a t where s: "s = [a] @ t" and "P a" and "\<forall>c \<in> set t. P c"
    by (cases s) auto
  then have "[a] \<in> lang (RClass P)" and "t \<in> lang (RStar (RClass P))"
    by (simp_all add: star_class)
  then show "s \<in> lang (RPlus (RClass P))"
    unfolding s RPlus_def lang.simps(4) conc_def by blast
qed

section \<open>Properties of the validators\<close>

text \<open>
  C9. For every string, \<^const>\<open>isValidPMID\<close> holds exactly when the string is one or
  more decimal digits: it is true on a non-empty string of digits only, and false on the
  empty string and on every string with a character that is not a decimal digit.
\<close>

theorem isValidPMID_iff:
  "isValidPMID S \<longleftrightarrow> S \<noteq> [] \<and> (\<forall>c \<in> set S. is_digit c)"
  by (simp add: isValidPMID_def regex_test_lang lang_plus_class)

theorem isValidPMID_iff_witness:
  "isValidPMID ''31452104'' \<and> \<not> isValidPMID '''' \<and> \<not> isValidPMID ''314a5''
     \<and> \<not> isValidPMID ''12 ''"
proof -
  have d: "\<forall>c \<in> set ''31452104''. is_digit c"
    by (simp add: is_digit_def char_code_def)
  have "\<not> is_digit CHR ''a''" and "\<not> is_digit CHR '' ''"
    by (simp_all add: is_digit_def char_code_def)
  then show ?thesis
    using d isValidPMID_iff [of "''31452104''"] isValidPMID_iff [of "''''"]
      isValidPMID_iff [of "''314a5''"] isValidPMID_iff [of "''12 ''"]
    by simp
qed

section \<open>Normalising a PMC identifier\<close>















section \<open>The search query builder\<close>

text \<open>
  \<^verbatim>\<open>sanitizeSearchTerm\<close>:
  \<^verbatim>\<open>term.replace(/[^\w\s\-\(\)\[\]"']/g, ' ').replace(/\s+/g, ' ').trim()\<close>.
  A global replace of a one-character class rewrites every matching character; a global
  replace of \<^verbatim>\<open>\s+\<close> rewrites every maximal run, found from left to right.
\<close>

definition replace_chars :: "(char \<Rightarrow> bool) \<Rightarrow> string \<Rightarrow> string \<Rightarrow> string" where
  "replace_chars P rep s = concat (map (\<lambda>c. if P c then rep else [c]) s)"

function replace_runs :: "(char \<Rightarrow> bool) \<Rightarrow> string \<Rightarrow> string \<Rightarrow> string" where
  "replace_runs P rep [] = []"
| "replace_runs P rep (c # cs) =
     (if P c then rep @ replace_runs P rep (dropWhile P cs) else c # replace_runs P rep cs)"
  by pat_completeness auto
termination
  by (relation "measure (\<lambda>(P, rep, s). length s)")
     (auto simp: length_dropWhile_le less_Suc_eq_le)

definition search_char :: "char \<Rightarrow> bool" where
  "search_char c \<longleftrightarrow>
     is_word c \<or> is_space c \<or> c = CHR ''-'' \<or> c = CHR ''('' \<or> c = CHR '')''
       \<or> c = CHR ''['' \<or> c = CHR '']'' \<or> c = CHR 0x22 \<or> c = CHR 0x27"

definition sanitizeSearchTerm :: "string \<Rightarrow> string" where
  "sanitizeSearchTerm term =
     trim (replace_runs is_space '' '' (replace_chars (\<lambda>c. \<not> search_char c) '' '' term))"

definition buildFieldQuery :: "string \<Rightarrow> string \<Rightarrow> string" where
  "buildFieldQuery term field = (let sanitized = sanitizeSearchTerm term in sanitized @ ''['' @ field @ '']'')"

text \<open>The contract of the query builder, in the words of the specification.\<close>

definition spec_char :: "char \<Rightarrow> bool" where
  "spec_char c \<longleftrightarrow>
     is_upper c \<or> is_lower c \<or> is_digit c \<or> c = CHR ''_'' \<or> is_space c
       \<or> c = CHR ''('' \<or> c = CHR '')'' \<or> c = CHR ''['' \<or> c = CHR '']''
       \<or> c = CHR 0x22 \<or> c = CHR 0x27"

fun collapse_ws :: "string \<Rightarrow> string" where
  "collapse_ws [] = []"
| "collapse_ws [c] = [if is_space c then CHR '' '' else c]"
| "collapse_ws (c # d # cs) =
     (if is_space c \<and> is_space d then collapse_ws (d # cs)
      else (if is_space c then CHR '' '' else c) # collapse_ws (d # cs))"

definition spec_query :: "(char \<Rightarrow> bool) \<Rightarrow> string \<Rightarrow> string \<Rightarrow> string" where
  "spec_query allowed term field =
     trim (collapse_ws (map (\<lambda>c. if allowed c then c else CHR '' '') term))
       @ ''['' @ field @ '']''"

lemma replace_chars_map:
  "replace_chars (\<lambda>c. \<not> allowed c) '' '' s = map (\<lambda>c. if allowed c then c else CHR '' '') s"
  by (induction s) (simp_all add: replace_chars_def)

lemma collapse_ws_space:
  "is_space c \<Longrightarrow> collapse_ws (c # cs) = CHR '' '' # collapse_ws (dropWhile is_space cs)"
  by (induction cs arbitrary: c) simp_all

lemma collapse_ws_other:
  "\<not> is_space c \<Longrightarrow> collapse_ws (c # cs) = c # collapse_ws cs"
  by (cases cs) simp_all

lemma replace_runs_collapse: "replace_runs is_space '' '' s = collapse_ws s"
  by (induction is_space "'' ''" s rule: replace_runs.induct)
     (simp_all add: collapse_ws_space collapse_ws_other)

text \<open>
  C6, as amended. For every term and field, \<^const>\<open>buildFieldQuery\<close> is the term
  with every character outside the class of the specification extended by the hyphen
  replaced by a space, every run of white space collapsed to one space, the result
  trimmed, and the field appended in brackets with nothing in between; the example of
  the specification gives \<^verbatim>\<open>cancer treatment[Title]\<close>.
\<close>

theorem buildFieldQuery_hyphen_kept:
  "buildFieldQuery term field = spec_query (\<lambda>c. spec_char c \<or> c = CHR ''-'') term field
     \<and> buildFieldQuery ''cancer; treatment!'' ''Title'' = ''cancer treatment[Title]''"
proof
  have "search_char = (\<lambda>c. spec_char c \<or> c = CHR ''-'')"
    by (auto simp: search_char_def spec_char_def is_word_def fun_eq_iff)
  then show "buildFieldQuery term field = spec_query (\<lambda>c. spec_char c \<or> c = CHR ''-'') term field"
    by (simp add: buildFieldQuery_def sanitizeSearchTerm_def spec_query_def
        replace_chars_map replace_runs_collapse)
  show "buildFieldQuery ''cancer; treatment!'' ''Title'' = ''cancer treatment[Title]''"
    by code_simp
qed

text \<open>
  C6, as stated, fails: the pattern of \<^verbatim>\<open>sanitizeSearchTerm\<close> lists the hyphen
  among the characters it keeps, and the builder puts no space before the bracket.
\<close>

theorem buildFieldQuery_counterexample:
  "buildFieldQuery ''a-b'' ''Title'' \<noteq> spec_query spec_char ''a-b'' ''Title''
     \<and> buildFieldQuery ''a-b'' ''Title'' = ''a-b[Title]''
     \<and> spec_query spec_char ''a-b'' ''Title'' = ''a b[Title]''
     \<and> buildFieldQuery ''cancer; treatment!'' ''Title'' \<noteq> ''cancer  treatment [Title]''"
  by code_simp

section \<open>The citation formatter\<close>

text \<open>
  The argument of \<^verbatim>\<open>formatCitation\<close>. An optional field is \<^const>\<open>None\<close> when
  it is \<^verbatim>\<open>undefined\<close>.
\<close>

record author =
  lastName :: string
  foreName :: "string option"
  initials :: "string option"

record article =
  authors :: "author list"
  title :: string
  journal :: string
  publicationDate :: string
  volume :: "string option"
  issue :: "string option"
  pages :: "string option"
  doi :: "string option"

text \<open>
  JavaScript on optional strings: truthiness (a defined, non-empty string), the operator
  \<^verbatim>\<open>||\<close>, interpolation into a template literal (\<^verbatim>\<open>undefined\<close> is
  written out), \<^verbatim>\<open>s?.[0]\<close>, \<^verbatim>\<open>split\<close> on a one-character separator and
  the indexing of its result.
\<close>

definition truthy_str :: "string option \<Rightarrow> bool" where
  "truthy_str v = (case v of None \<Rightarrow> False | Some s \<Rightarrow> s \<noteq> [])"

definition js_or :: "string option \<Rightarrow> string option \<Rightarrow> string option" where
  "js_or a b = (if truthy_str a then a else b)"

definition render :: "string option \<Rightarrow> string" where
  "render v = (case v of None \<Rightarrow> ''undefined'' | Some s \<Rightarrow> s)"

definition first_char :: "string option \<Rightarrow> string option" where
  "first_char v = (case v of Some (c # cs) \<Rightarrow> Some [c] | _ \<Rightarrow> None)"

fun split_on :: "char \<Rightarrow> string \<Rightarrow> string list" where
  "split_on sep [] = [[]]"
| "split_on sep (c # cs) =
     (if c = sep then [] # split_on sep cs
      else (c # hd (split_on sep cs)) # tl (split_on sep cs))"

definition segment :: "string list \<Rightarrow> nat \<Rightarrow> string option" where
  "segment parts i = (if i < length parts then Some (parts ! i) else None)"

definition nl :: string where
  "nl = [CHR 0x0A]"

definition formatAPACitation :: "article \<Rightarrow> author list \<Rightarrow> string \<Rightarrow> string" where
  "formatAPACitation article authors' year =
     (let name = (\<lambda>a. lastName a @ '', '' @
                    render (js_or (js_or (initials a) (first_char (foreName a))) (Some '''')));
          authorStr = join '', ''
            (map (\<lambda>(i, a). if i = length authors' - 1 \<and> length authors' > 1
                             then ''& '' @ name a else name a)
              (enumerate 0 authors'));
          citation = authorStr @ ''. ('' @ year @ ''). '' @ title article @ ''. '' @ journal article;
          citation = (if truthy_str (volume article)
                      then citation @ '', '' @ render (volume article) @
                        (if truthy_str (issue article) then ''('' @ render (issue article) @ '')'' else '''')
                      else citation);
          citation = (if truthy_str (pages article) then citation @ '', '' @ render (pages article)
                      else citation);
          citation = (if truthy_str (doi article)
                      then citation @ ''. https://doi.org/'' @ render (doi article) else citation)
      in citation)"

definition formatMLACitation :: "article \<Rightarrow> author list \<Rightarrow> string \<Rightarrow> string" where
  "formatMLACitation article authors' year =
     (let authorStr = (case authors' of
              a # _ \<Rightarrow> lastName a @ '', '' @ render (js_or (foreName a) (initials a))
            | [] \<Rightarrow> ''Unknown'');
          citation = authorStr @ ''. '' @ [CHR 0x22] @ title article @ [CHR 0x22] @ '' '' @ journal article;
          citation = (if truthy_str (volume article)
                      then citation @ '' '' @ render (volume article) @
                        (if truthy_str (issue article) then ''.'' @ render (issue article) else '''')
                      else citation);
          citation = citation @ '' ('' @ year @ '')'';
          citation = (if truthy_str (pages article) then citation @ '': '' @ render (pages article)
                      else citation)
      in citation @ ''.'')"

definition formatChicagoCitation :: "article \<Rightarrow> author list \<Rightarrow> string \<Rightarrow> string" where
  "formatChicagoCitation article authors' year =
     (let authorStr = join '', ''
            (map (\<lambda>(i, a). if i = 0
                             then lastName a @ '', '' @ render (js_or (foreName a) (initials a))
                             else render (js_or (foreName a) (initials a)) @ '' '' @ lastName a)
              (enumerate 0 authors'));
          citation = authorStr @ ''. '' @ [CHR 0x22] @ title article @ ''.'' @ [CHR 0x22] @ '' '' @ journal article;
          citation = (if truthy_str (volume article)
                      then citation @ '' '' @ render (volume article) @
                        (if truthy_str (issue article) then '', no. '' @ render (issue article) else '''')
                      else citation);
          citation = citation @ '' ('' @ year @ '')'';
          citation = (if truthy_str (pages article) then citation @ '': '' @ render (pages article)
                      else citation)
      in citation @ ''.'')"

definition formatBibTeXCitation :: "article \<Rightarrow> author list \<Rightarrow> string \<Rightarrow> string" where
  "formatBibTeXCitation article authors' year =
     (let authorStr = join '' and ''
            (map (\<lambda>a. lastName a @ '', '' @ render (js_or (foreName a) (initials a))) authors');
          key = (case authors' of
                   a # _ \<Rightarrow> (if lastName a \<noteq> [] then lastName a else ''unknown'')
                 | [] \<Rightarrow> ''unknown'') @ year;
          bibtex = ''@article{'' @ key @ '','' @ nl;
          bibtex = bibtex @ ''  author = {'' @ authorStr @ ''},'' @ nl;
          bibtex = bibtex @ ''  title = {'' @ title article @ ''},'' @ nl;
          bibtex = bibtex @ ''  journal = {'' @ journal article @ ''},'' @ nl;
          bibtex = bibtex @ ''  year = {'' @ year @ ''},'' @ nl;
          bibtex = (if truthy_str (volume article)
                    then bibtex @ ''  volume = {'' @ render (volume article) @ ''},'' @ nl else bibtex);
          bibtex = (if truthy_str (issue article)
                    then bibtex @ ''  number = {'' @ render (issue article) @ ''},'' @ nl else bibtex);
          bibtex = (if truthy_str (pages article)
                    then bibtex @ ''  pages = {'' @ render (pages article) @ ''},'' @ nl else bibtex);
          bibtex = (if truthy_str (doi article)
                    then bibtex @ ''  doi = {'' @ render (doi article) @ ''},'' @ nl else bibtex)
      in bibtex @ ''}'')"

definition formatRISCitation :: "article \<Rightarrow> author list \<Rightarrow> string \<Rightarrow> string" where
  "formatRISCitation article authors' year =
     (let ris = ''TY  - JOUR'' @ nl;
          ris = ris @ concat (map (\<lambda>a. ''AU  - '' @ lastName a @ '', '' @
                                     render (js_or (foreName a) (initials a)) @ nl) authors');
          ris = ris @ ''TI  - '' @ title article @ nl;
          ris = ris @ ''JO  - '' @ journal article @ nl;
          ris = ris @ ''PY  - '' @ year @ nl;
          ris = (if truthy_str (volume article)
                 then ris @ ''VL  - '' @ render (volume article) @ nl else ris);
          ris = (if truthy_str (issue article)
                 then ris @ ''IS  - '' @ render (issue article) @ nl else ris);
          ris = (if truthy_str (pages article)
                 then ris @ ''SP  - '' @
                   render (segment (split_on CHR ''-'' (render (pages article))) 0) @ nl
                 else ris);
          ris = (if truthy_str (pages article) \<and> CHR ''-'' \<in> set (render (pages article))
                 then ris @ ''EP  - '' @
                   render (segment (split_on CHR ''-'' (render (pages article))) 1) @ nl
                 else ris);
          ris = (if truthy_str (doi article)
                 then ris @ ''DO  - '' @ render (doi article) @ nl else ris)
      in ris @ ''ER  - '' @ nl)"

definition formatCitation :: "article \<Rightarrow> string \<Rightarrow> string" where
  "formatCitation article style =
     (let year = render (segment (split_on CHR ''-'' (publicationDate article)) 0);
          authorList = take 20 (authors article)
      in if style = ''apa'' then formatAPACitation article authorList year
         else if style = ''mla'' then formatMLACitation article authorList year
         else if style = ''chicago'' then formatChicagoCitation article authorList year
         else if style = ''bibtex'' then formatBibTeXCitation article authorList year
         else if style = ''ris'' then formatRISCitation article authorList year
         else formatAPACitation article authorList year)"

lemma split_on_first:
  "split_on sep s \<noteq> [] \<and> hd (split_on sep s) = takeWhile (\<lambda>c. c \<noteq> sep) s"
  by (induction s) simp_all

lemma year_segment:
  "render (segment (split_on sep s) 0) = takeWhile (\<lambda>c. c \<noteq> sep) s"
  using split_on_first [of sep s]
  by (cases "split_on sep s") (simp_all add: render_def segment_def)

lemma str_includes_middle: "str_includes (a @ p @ b) p"
  unfolding str_includes_def
  by (rule bexI [where x = "length a"]) simp_all

lemma append_if_suffix: "(if c then b @ x else b) = b @ (if c then x else [])"
  by simp

text \<open>
  C8. In the \<^verbatim>\<open>bibtex\<close> style, an article whose only author is Jane Doe, with
  title \<^verbatim>\<open>T\<close>, journal \<^verbatim>\<open>J\<close> and a publication date whose part before
  the first hyphen is \<^verbatim>\<open>2024\<close>, is formatted to a string that contains
  \<^verbatim>\<open>@article{Doe2024,\<close> and the line \<^verbatim>\<open>  title = {T},\<close>; the optional
  fields of the article are arbitrary.
\<close>

theorem formatCitation_bibtex:
  assumes "authors a = [au]" and "lastName au = ''Doe''" and "foreName au = Some ''Jane''"
    and "title a = ''T''" and "journal a = ''J''"
    and "takeWhile (\<lambda>c. c \<noteq> CHR ''-'') (publicationDate a) = ''2024''"
  shows "str_includes (formatCitation a ''bibtex'') ''@article{Doe2024,''
     \<and> str_includes (formatCitation a ''bibtex'') (''  title = {T},'' @ nl)"
proof -
  define opt where "opt =
     (if truthy_str (volume a) then ''  volume = {'' @ render (volume a) @ ''},'' @ nl else [])
     @ (if truthy_str (issue a) then ''  number = {'' @ render (issue a) @ ''},'' @ nl else [])
     @ (if truthy_str (pages a) then ''  pages = {'' @ render (pages a) @ ''},'' @ nl else [])
     @ (if truthy_str (doi a) then ''  doi = {'' @ render (doi a) @ ''},'' @ nl else [])"
  have out: "formatCitation a ''bibtex'' =
     ''@article{Doe2024,'' @ nl @ ''  author = {Doe, Jane},'' @ nl @ ''  title = {T},'' @ nl
       @ ''  journal = {J},'' @ nl @ ''  year = {2024},'' @ nl @ opt @ ''}''"
  proof -
    have y: "render (segment (split_on CHR ''-'' (publicationDate a)) 0) = ''2024''"
      using assms(6) by (simp add: year_segment)
    have n: "render (js_or (foreName au) (initials au)) = ''Jane''"
      using assms(3) by (simp add: js_or_def truthy_str_def render_def)
    show ?thesis
      using assms(1,2,4,5)
      by (simp add: formatCitation_def formatBibTeXCitation_def y n Let_def opt_def)
  qed
  have 1: "formatCitation a ''bibtex'' = [] @ ''@article{Doe2024,'' @
      (nl @ ''  author = {Doe, Jane},'' @ nl @ ''  title = {T},'' @ nl
       @ ''  journal = {J},'' @ nl @ ''  year = {2024},'' @ nl @ opt @ ''}'')"
    by (simp add: out)
  have 2: "formatCitation a ''bibtex'' = (''@article{Doe2024,'' @ nl @ ''  author = {Doe, Jane},'' @ nl)
       @ (''  title = {T},'' @ nl) @ (''  journal = {J},'' @ nl @ ''  year = {2024},'' @ nl @ opt @ ''}'')"
    by (simp add: out)
  show ?thesis
    by (rule conjI) (subst 1, rule str_includes_middle, subst 2, rule str_includes_middle)
qed

definition doe_article :: article where
  "doe_article = \<lparr>authors = [\<lparr>lastName = ''Doe'', foreName = Some ''Jane'', initials = Some ''J''\<rparr>],
          title = ''T'', journal = ''J'', publicationDate = ''2024-05-17'',
          volume = Some ''12'', issue = Some ''3'', pages = Some ''45-67'', doi = None\<rparr>"

theorem formatCitation_bibtex_witness:
  "takeWhile (\<lambda>c. c \<noteq> CHR ''-'') (publicationDate doe_article) = ''2024''
     \<and> str_includes (formatCitation doe_article ''bibtex'') ''@article{Doe2024,''
     \<and> str_includes (formatCitation doe_article ''bibtex'') (''  title = {T},'' @ nl)"
proof -
  have "takeWhile (\<lambda>c. c \<noteq> CHR ''-'') (publicationDate doe_article) = ''2024''"
    by (simp add: doe_article_def)
  then show ?thesis
    using formatCitation_bibtex [of doe_article "\<lparr>lastName = ''Doe'', foreName = Some ''Jane'', initials = Some ''J''\<rparr>"]
    by (simp add: doe_article_def)
qed

section \<open>The field extractor\<close>

text \<open>
  \<^verbatim>\<open>extractText(node: any)\<close> receives whatever the XML parser produced, so its
  argument is a JavaScript value. Numbers are the integers, written in decimal; an object
  is the list of its own members in the order \<^verbatim>\<open>Object.values\<close> enumerates them.
\<close>

datatype jsval =
    JUndefined
  | JNull
  | JBool bool
  | JNum int
  | JStr string
  | JArr "jsval list"
  | JObj "(string \<times> jsval) list"

text \<open>
  What a JavaScript computation can throw: an \<^verbatim>\<open>Error\<close> object (a
  \<^verbatim>\<open>TypeError\<close> is one) with its message, or any other value.
\<close>

datatype js_error =
    TypeError string
  | Error string
  | Thrown jsval

text \<open>
  The operations \<^verbatim>\<open>extractText\<close> applies to a value: \<^verbatim>\<open>typeof\<close>,
  truthiness, \<^verbatim>\<open>Array.isArray\<close>, the optional property read \<^verbatim>\<open>node?.k\<close>
  (\<^verbatim>\<open>undefined\<close> on \<^verbatim>\<open>null\<close>, on \<^verbatim>\<open>undefined\<close> and where the
  member is absent), \<^verbatim>\<open>Object.values\<close> (which throws on \<^verbatim>\<open>null\<close> and
  \<^verbatim>\<open>undefined\<close>), and \<^verbatim>\<open>Array.prototype.join\<close>, which writes
  \<^verbatim>\<open>null\<close> and \<^verbatim>\<open>undefined\<close> elements as empty strings and converts the
  others to strings.
\<close>

fun typeof :: "jsval \<Rightarrow> string" where
  "typeof JUndefined = ''undefined''"
| "typeof JNull = ''object''"
| "typeof (JBool b) = ''boolean''"
| "typeof (JNum n) = ''number''"
| "typeof (JStr s) = ''string''"
| "typeof (JArr xs) = ''object''"
| "typeof (JObj kvs) = ''object''"

fun truthy :: "jsval \<Rightarrow> bool" where
  "truthy JUndefined = False"
| "truthy JNull = False"
| "truthy (JBool b) = b"
| "truthy (JNum n) = (n \<noteq> 0)"
| "truthy (JStr s) = (s \<noteq> [])"
| "truthy (JArr xs) = True"
| "truthy (JObj kvs) = True"

fun isArray :: "jsval \<Rightarrow> bool" where
  "isArray (JArr xs) = True"
| "isArray v = False"

fun elements :: "jsval \<Rightarrow> jsval list" where
  "elements (JArr xs) = xs"
| "elements v = []"

fun opt_prop :: "jsval \<Rightarrow> string \<Rightarrow> jsval" where
  "opt_prop (JObj kvs) k = (case map_of kvs k of Some v \<Rightarrow> v | None \<Rightarrow> JUndefined)"
| "opt_prop v k = JUndefined"

fun Object_values :: "jsval \<Rightarrow> js_error + jsval list" where
  "Object_values JUndefined = Inl (TypeError ''Cannot convert undefined or null to object'')"
| "Object_values JNull = Inl (TypeError ''Cannot convert undefined or null to object'')"
| "Object_values (JObj kvs) = Inr (map snd kvs)"
| "Object_values (JArr xs) = Inr xs"
| "Object_values (JStr s) = Inr (map (\<lambda>c. JStr [c]) s)"
| "Object_values v = Inr []"

fun digits :: "nat \<Rightarrow> string" where
  "digits n = (if n < 10 then [char_of (48 + n)] else digits (n div 10) @ [char_of (48 + n mod 10)])"

definition int_to_string :: "int \<Rightarrow> string" where
  "int_to_string n = (if n < 0 then ''-'' @ digits (nat (- n)) else digits (nat n))"

fun toString :: "jsval \<Rightarrow> string" where
  "toString JUndefined = ''undefined''"
| "toString JNull = ''null''"
| "toString (JBool b) = (if b then ''true'' else ''false'')"
| "toString (JNum n) = int_to_string n"
| "toString (JStr s) = s"
| "toString (JArr xs) =
     join '','' (map (\<lambda>x. if x = JUndefined \<or> x = JNull then '''' else toString x) xs)"
| "toString (JObj kvs) = ''[object Object]''"

definition array_join :: "string \<Rightarrow> jsval list \<Rightarrow> string" where
  "array_join sep xs =
     join sep (map (\<lambda>x. if x = JUndefined \<or> x = JNull then '''' else toString x) xs)"

text \<open>
  \<^verbatim>\<open>xs.map(f)\<close> where \<^verbatim>\<open>f\<close> may throw: the first exception, from left to
  right, is the result.
\<close>

fun collect :: "('e + 'a) list \<Rightarrow> 'e + 'a list" where
  "collect [] = Inr []"
| "collect (Inl e # rs) = Inl e"
| "collect (Inr v # rs) = (case collect rs of Inl e \<Rightarrow> Inl e | Inr vs \<Rightarrow> Inr (v # vs))"

lemma size_member: "(k, v) \<in> set kvs \<Longrightarrow> size v < size (JObj kvs)"
  by (induction kvs) auto

lemma size_element: "v \<in> set xs \<Longrightarrow> size v < size (JArr xs)"
  by (induction xs) auto

lemma size_elements: "v \<in> set (elements node) \<Longrightarrow> size v < size node"
  by (cases node) (auto simp: size_element simp del: jsval.size)

lemma size_Object_values:
  "typeof node \<noteq> ''string'' \<Longrightarrow> Object_values node = Inr ms \<Longrightarrow> v \<in> set ms
     \<Longrightarrow> size v < size node"
  by (cases node) (auto simp: size_element size_member simp del: jsval.size)

text \<open>
  \<^verbatim>\<open>extractText\<close>, test by test as in \<^verbatim>\<open>utils.ts\<close>. The second test returns
  \<^verbatim>\<open>node._\<close> as it is, whatever its type.
\<close>

function extractText :: "jsval \<Rightarrow> js_error + jsval" where
  "extractText node =
     (if typeof node = ''string'' then Inr node
      else if truthy (opt_prop node ''_'') then Inr (opt_prop node ''_'')
      else if isArray node then
        (case collect (map extractText (elements node)) of
           Inl e \<Rightarrow> Inl e
         | Inr texts \<Rightarrow> Inr (JStr (array_join '' '' texts)))
      else if typeof node = ''object'' then
        (case Object_values node of
           Inl e \<Rightarrow> Inl e
         | Inr members \<Rightarrow>
             (case collect (map extractText members) of
                Inl e \<Rightarrow> Inl e
              | Inr texts \<Rightarrow> Inr (JStr (array_join '' '' texts))))
      else Inr (JStr ''''))"
  by pat_completeness auto
termination
  by (relation "measure size") (auto simp: size_elements size_Object_values simp del: jsval.size)

declare extractText.simps [simp del]

lemma extractText_JStr: "extractText (JStr s) = Inr (JStr s)"
  by (subst extractText.simps) simp

lemma extractText_JNull:
  "extractText JNull = Inl (TypeError ''Cannot convert undefined or null to object'')"
  by (subst extractText.simps) simp

lemma extractText_JArr:
  "extractText (JArr xs) =
     (case collect (map extractText xs) of
        Inl e \<Rightarrow> Inl e
      | Inr texts \<Rightarrow> Inr (JStr (array_join '' '' texts)))"
  by (subst extractText.simps) simp

lemma extractText_JObj:
  "extractText (JObj kvs) =
     (if truthy (opt_prop (JObj kvs) ''_'') then Inr (opt_prop (JObj kvs) ''_'')
      else case collect (map extractText (map snd kvs)) of
             Inl e \<Rightarrow> Inl e
           | Inr texts \<Rightarrow> Inr (JStr (array_join '' '' texts)))"
  by (subst extractText.simps) simp

lemma extractText_primitive:
  "extractText JUndefined = Inr (JStr [])"
  "extractText (JBool b) = Inr (JStr [])"
  "extractText (JNum n) = Inr (JStr [])"
  by (subst extractText.simps, simp)+

text \<open>Values without \<^verbatim>\<open>null\<close>.\<close>

fun null_free :: "jsval \<Rightarrow> bool" where
  "null_free JNull = False"
| "null_free (JArr xs) = list_all null_free xs"
| "null_free (JObj kvs) = list_all (\<lambda>kv. null_free (snd kv)) kvs"
| "null_free v = True"

lemma collect_all_Inr:
  "(\<And>x. x \<in> set xs \<Longrightarrow> \<exists>r. f x = Inr r) \<Longrightarrow> \<exists>rs. collect (map f xs) = Inr rs"
proof (induction xs)
  case Nil
  show ?case by simp
next
  case (Cons x xs)
  then obtain r rs where "f x = Inr r" and "collect (map f xs) = Inr rs"
    by (metis list.set_intros(1) list.set_intros(2))
  then show ?case by simp
qed

lemma extractText_total_null_free: "null_free v \<Longrightarrow> \<exists>r. extractText v = Inr r"
proof (induction v rule: extractText.induct)
  case (1 node)
  show ?case
  proof (cases node)
    case (JArr xs)
    have "\<And>x. x \<in> set xs \<Longrightarrow> \<exists>r. extractText x = Inr r"
      using 1 JArr by (auto simp: list_all_iff)
    then obtain rs where "collect (map extractText xs) = Inr rs"
      using collect_all_Inr [of xs extractText] by blast
    with JArr show ?thesis by (simp add: extractText_JArr)
  next
    case (JObj kvs)
    show ?thesis
    proof (cases "truthy (opt_prop node ''_'')")
      case True
      with JObj show ?thesis by (simp add: extractText_JObj)
    next
      case False
      have "\<And>x. x \<in> set (map snd kvs) \<Longrightarrow> \<exists>r. extractText x = Inr r"
        using 1(2) [of "map snd kvs"] 1(3) JObj False by (auto simp: list_all_iff)
      then obtain rs where "collect (map extractText (map snd kvs)) = Inr rs"
        using collect_all_Inr [of "map snd kvs" extractText] by blast
      with JObj False show ?thesis by (simp add: extractText_JObj)
    qed
  qed (use 1 in \<open>simp_all add: extractText_JStr extractText_primitive\<close>)
qed

text \<open>
  C3, the failing inputs. \<^verbatim>\<open>typeof null\<close> is \<^verbatim>\<open>'object'\<close>, so
  \<^verbatim>\<open>null\<close> reaches \<^verbatim>\<open>Object.values(node)\<close>, which throws; the exception
  passes through every enclosing array and object.
\<close>

theorem extractText_null_fails:
  "extractText JNull = Inl (TypeError ''Cannot convert undefined or null to object'')
     \<and> extractText (JArr [JStr ''y'', JNull]) = Inl (TypeError ''Cannot convert undefined or null to object'')
     \<and> extractText (JObj [(''a'', JNull)]) = Inl (TypeError ''Cannot convert undefined or null to object'')"
  by (simp add: extractText_JNull extractText_JArr extractText_JObj extractText_JStr)

text \<open>
  What holds of C3: on a value that contains no \<^verbatim>\<open>null\<close>, \<^const>\<open>extractText\<close>
  returns, and applied to a string it returned it gives that string again.
\<close>

theorem extractText_total_idempotent:
  "(null_free x \<longrightarrow> (\<exists>r. extractText x = Inr r))
     \<and> (extractText x = Inr (JStr s) \<longrightarrow> extractText (JStr s) = Inr (JStr s))"
  by (simp add: extractText_total_null_free extractText_JStr)

text \<open>
  The shape of the specification's example \<^verbatim>\<open>{a: {_: "x"}, b: ["y", "z"]}\<close>: an object
  whose member values are objects that carry a text under the key \<^verbatim>\<open>_\<close>, or arrays of
  strings, and whose own member names are not that key. The leaf strings of such a
  member are its text, or the elements of the array.
\<close>

fun payload :: "jsval \<Rightarrow> string option" where
  "payload (JObj kvs) =
     (case map_of kvs ''_'' of Some (JStr s) \<Rightarrow> (if s = [] then None else Some s) | _ \<Rightarrow> None)"
| "payload v = None"







lemma collect_Inr: "collect (map Inr xs) = Inr xs"
  by (induction xs) simp_all









definition example_node :: jsval where
  "example_node =
     JObj [(''a'', JObj [(''_'', JStr ''x'')]), (''b'', JArr [JStr ''y'', JStr ''z''])]"


theorem extractText_total_idempotent_witness:
  "null_free example_node \<and> extractText example_node = Inr (JStr ''x y z'')
     \<and> extractText (JStr ''x y z'') = Inr (JStr ''x y z'')"
proof -
  have n: "null_free example_node" by (simp add: example_node_def)
  have e: "extractText example_node = Inr (JStr ''x y z'')"
    by (simp add: example_node_def extractText_JObj extractText_JArr extractText_JStr
        array_join_def)
  from extractText_total_idempotent [of example_node "''x y z''"] n e show ?thesis by simp
qed

section \<open>Retry with exponential backoff\<close>

text \<open>
  An asynchronous task is a function on the state of whatever it talks to; it returns a
  value or throws. The effects of \<^verbatim>\<open>retryWithBackoff\<close> itself are recorded in order:
  each call of the task, and each \<^verbatim>\<open>setTimeout(resolve, delay)\<close> it awaits.
\<close>

type_synonym ('s, 'a) task = "'s \<Rightarrow> (js_error + 'a) \<times> 's"

datatype effect = Invoked | Timeout int

text \<open>\<^verbatim>\<open>error instanceof Error ? error : new Error(String(error))\<close>.\<close>

fun as_Error :: "js_error \<Rightarrow> js_error" where
  "as_Error (Thrown v) = Error (toString v)"
| "as_Error e = e"

fun is_Error_object :: "js_error \<Rightarrow> bool" where
  "is_Error_object (Thrown v) = False"
| "is_Error_object e = True"

text \<open>
  The loop \<^verbatim>\<open>for (let i = 0; i < maxRetries; i++)\<close> with its variable
  \<^verbatim>\<open>lastError\<close>, and the \<^verbatim>\<open>throw\<close> after it.
\<close>

function retry_loop ::
  "('s, 'a) task \<Rightarrow> int \<Rightarrow> int \<Rightarrow> int \<Rightarrow> js_error option \<Rightarrow> 's \<times> effect list
     \<Rightarrow> (js_error + 'a) \<times> 's \<times> effect list" where
  "retry_loop fn maxRetries baseDelay i lastError (s, tr) =
     (if i < maxRetries then
        (case fn s of
           (Inr v, s') \<Rightarrow> (Inr v, s', tr @ [Invoked])
         | (Inl error, s') \<Rightarrow>
             retry_loop fn maxRetries baseDelay (i + 1) (Some (as_Error error))
               (s', tr @ [Invoked] @
                  (if i < maxRetries - 1 then [Timeout (baseDelay * 2 ^ nat i)] else [])))
      else
        (Inl (case lastError of Some e \<Rightarrow> e | None \<Rightarrow> Error ''Max retries exceeded''), s, tr))"
  by pat_completeness auto
termination
  by (relation "measure (\<lambda>(fn, maxRetries, baseDelay, i, lastError, w). nat (maxRetries - i))") auto

definition retryWithBackoff ::
  "('s, 'a) task \<Rightarrow> int \<Rightarrow> int \<Rightarrow> 's \<times> effect list \<Rightarrow> (js_error + 'a) \<times> 's \<times> effect list" where
  "retryWithBackoff fn maxRetries baseDelay w = retry_loop fn maxRetries baseDelay 0 None w"

declare retry_loop.simps [simp del]

text \<open>
  C2. With \<^verbatim>\<open>maxRetries = 3\<close>, a task whose three successive calls fail is called
  exactly three times: after the first failure the retry waits \<^verbatim>\<open>baseDelay * 2^0\<close>,
  after the second \<^verbatim>\<open>baseDelay * 2^1\<close>, after the third it does not wait, and it
  throws the error of the third call (as an \<^verbatim>\<open>Error\<close> object: a thrown value of
  another kind arrives wrapped, an \<^verbatim>\<open>Error\<close> arrives as it is).
\<close>

theorem retryWithBackoff_always_fails:
  assumes "fn s0 = (Inl e1, s1)" and "fn s1 = (Inl e2, s2)" and "fn s2 = (Inl e3, s3)"
  shows "retryWithBackoff fn 3 baseDelay (s0, []) =
           (Inl (as_Error e3), s3,
            [Invoked, Timeout (baseDelay * 2 ^ 0), Invoked, Timeout (baseDelay * 2 ^ 1), Invoked])
         \<and> (is_Error_object e3 \<longrightarrow> as_Error e3 = e3)"
proof
  have "retry_loop fn 3 baseDelay 3 (Some (as_Error e3))
          (s3, [Invoked, Timeout (baseDelay * 2 ^ 0), Invoked, Timeout (baseDelay * 2 ^ 1), Invoked])
        = (Inl (as_Error e3), s3,
            [Invoked, Timeout (baseDelay * 2 ^ 0), Invoked, Timeout (baseDelay * 2 ^ 1), Invoked])"
    by (subst retry_loop.simps) simp
  then have "retry_loop fn 3 baseDelay 2 (Some (as_Error e2))
          (s2, [Invoked, Timeout (baseDelay * 2 ^ 0), Invoked, Timeout (baseDelay * 2 ^ 1)])
        = (Inl (as_Error e3), s3,
            [Invoked, Timeout (baseDelay * 2 ^ 0), Invoked, Timeout (baseDelay * 2 ^ 1), Invoked])"
    using assms(3) by (subst retry_loop.simps) simp
  then have "retry_loop fn 3 baseDelay 1 (Some (as_Error e1))
          (s1, [Invoked, Timeout (baseDelay * 2 ^ 0)])
        = (Inl (as_Error e3), s3,
            [Invoked, Timeout (baseDelay * 2 ^ 0), Invoked, Timeout (baseDelay * 2 ^ 1), Invoked])"
    using assms(2) by (subst retry_loop.simps) simp
  then show "retryWithBackoff fn 3 baseDelay (s0, []) =
           (Inl (as_Error e3), s3,
            [Invoked, Timeout (baseDelay * 2 ^ 0), Invoked, Timeout (baseDelay * 2 ^ 1), Invoked])"
    using assms(1) unfolding retryWithBackoff_def by (subst retry_loop.simps) simp
  show "is_Error_object e3 \<longrightarrow> as_Error e3 = e3"
    by (cases e3) simp_all
qed

text \<open>A task that fails on every call and counts its calls.\<close>

definition failing_task :: "(nat, jsval) task" where
  "failing_task n = (Inl (Error (''timeout of call '' @ digits n)), Suc n)"

theorem retryWithBackoff_always_fails_witness:
  "retryWithBackoff failing_task 3 1000 (0, []) =
     (Inl (Error ''timeout of call 2''), 3, [Invoked, Timeout 1000, Invoked, Timeout 2000, Invoked])"
proof -
  have d: "digits 0 = ''0''" "digits (Suc 0) = ''1''" "digits (Suc (Suc 0)) = ''2''"
    by code_simp+
  show ?thesis
    using retryWithBackoff_always_fails [of failing_task 0 "Error ''timeout of call 0''" 1
        "Error ''timeout of call 1''" 2 "Error ''timeout of call 2''" 3 1000]
    by (simp add: failing_task_def d numeral_2_eq_2 numeral_3_eq_3 del: digits.simps)
qed

section \<open>The tool handlers of the PubMed server\<close>

text \<open>
  The handlers of \<^verbatim>\<open>index.ts\<close> talk to NCBI only through the methods of
  \<^verbatim>\<open>eutilsClient\<close> and \<^verbatim>\<open>pmcClient\<close>; every rate-limiter slot and every HTTP
  request is taken inside one of them. The clients are a parameter here: each method
  is a function on the state \<^typ>\<open>'w\<close> of the network that returns a value or throws.
  A session pairs that state with the log of the client calls made so far, each with
  the error it threw, if any.
\<close>

datatype upstream_call =
    Search jsval
  | Summary jsval
  | GetArticleDetails jsval
  | GetArticlesBatch jsval
  | GetCitedBy jsval
  | GetReferences jsval
  | GetSimilarArticles jsval jsval
  | GetFullText jsval

type_synonym 'w upstream_op = "'w \<Rightarrow> (js_error + jsval) \<times> 'w"

record 'w client =
  search :: "jsval \<Rightarrow> 'w upstream_op"
  summary :: "jsval \<Rightarrow> 'w upstream_op"
  getArticleDetails :: "jsval \<Rightarrow> 'w upstream_op"
  getArticlesBatch :: "jsval \<Rightarrow> 'w upstream_op"
  getCitedBy :: "jsval \<Rightarrow> 'w upstream_op"
  getReferences :: "jsval \<Rightarrow> 'w upstream_op"
  getSimilarArticles :: "jsval \<Rightarrow> jsval \<Rightarrow> 'w upstream_op"
  getFullText :: "jsval \<Rightarrow> 'w upstream_op"

type_synonym 'w session = "'w \<times> (upstream_call \<times> js_error option) list"

type_synonym ('w, 'a) async = "'w session \<Rightarrow> (js_error + 'a) \<times> 'w session"

definition resolve :: "'a \<Rightarrow> ('w, 'a) async" where
  "resolve v = (\<lambda>s. (Inr v, s))"

definition reject :: "js_error \<Rightarrow> ('w, 'a) async" where
  "reject e = (\<lambda>s. (Inl e, s))"

definition lift :: "js_error + 'a \<Rightarrow> ('w, 'a) async" where
  "lift r = (\<lambda>s. (r, s))"

definition await :: "('w, 'a) async \<Rightarrow> ('a \<Rightarrow> ('w, 'b) async) \<Rightarrow> ('w, 'b) async" where
  "await m f = (\<lambda>s. case m s of (Inl e, s') \<Rightarrow> (Inl e, s') | (Inr v, s') \<Rightarrow> f v s')"

definition try_catch :: "('w, 'a) async \<Rightarrow> (js_error \<Rightarrow> ('w, 'a) async) \<Rightarrow> ('w, 'a) async" where
  "try_catch m h = (\<lambda>s. case m s of (Inl e, s') \<Rightarrow> h e s' | (Inr v, s') \<Rightarrow> (Inr v, s'))"

definition upstream :: "upstream_call \<Rightarrow> 'w upstream_op \<Rightarrow> ('w, jsval) async" where
  "upstream c f =
     (\<lambda>(w, log). case f w of
        (r, w') \<Rightarrow> (r, (w', log @ [(c, case r of Inl e \<Rightarrow> Some e | Inr v \<Rightarrow> None)])))"

subsection \<open>JavaScript in the handlers\<close>

text \<open>
  A handler returns \<^verbatim>\<open>{content: [{type: 'text', text: JSON.stringify(v, null, 2)}]}\<close>.
  The text is kept as the JSON value it denotes: \<^verbatim>\<open>JSON.stringify\<close> leaves out the
  members that are \<^verbatim>\<open>undefined\<close> and writes \<^verbatim>\<open>undefined\<close> array elements as
  \<^verbatim>\<open>null\<close>.
\<close>

datatype content_block = TextJSON jsval

type_synonym tool_result = "content_block list"

function json_value :: "jsval \<Rightarrow> jsval" where
  "json_value (JArr xs) = JArr (map (\<lambda>x. if x = JUndefined then JNull else json_value x) xs)"
| "json_value (JObj kvs) =
     JObj (map (\<lambda>kv. (fst kv, json_value (snd kv))) (filter (\<lambda>kv. snd kv \<noteq> JUndefined) kvs))"
| "json_value JUndefined = JUndefined"
| "json_value JNull = JNull"
| "json_value (JBool b) = JBool b"
| "json_value (JNum n) = JNum n"
| "json_value (JStr s) = JStr s"
  by pat_completeness auto
termination
  by (relation "measure size") (auto simp: size_element size_member simp del: jsval.size)

definition text_content :: "jsval \<Rightarrow> tool_result" where
  "text_content v = [TextJSON (json_value v)]"

text \<open>
  \<^verbatim>\<open>const { a, b = d } = args\<close> throws on \<^verbatim>\<open>null\<close> and \<^verbatim>\<open>undefined\<close>;
  a default replaces \<^verbatim>\<open>undefined\<close> only. \<^verbatim>\<open>a || b\<close> on values.
\<close>

definition destructure :: "jsval \<Rightarrow> ('w, jsval) async" where
  "destructure args =
     (if args = JUndefined \<or> args = JNull
      then reject (TypeError (''Cannot destructure '' @ toString args))
      else resolve args)"

definition default_to :: "jsval \<Rightarrow> jsval \<Rightarrow> jsval" where
  "default_to v d = (if v = JUndefined then d else v)"

definition or_else :: "jsval \<Rightarrow> jsval \<Rightarrow> jsval" where
  "or_else a b = (if truthy a then a else b)"

text \<open>
  \<^verbatim>\<open>xs.slice(0, n)\<close>; the bound is a number, as the tool schemas declare
  \<^verbatim>\<open>max_results\<close>.
\<close>

fun slice_to :: "jsval \<Rightarrow> jsval list \<Rightarrow> jsval list" where
  "slice_to (JNum n) xs = (if 0 \<le> n then take (nat n) xs else take (length xs - nat (- n)) xs)"
| "slice_to v xs = []"

text \<open>
  \<^verbatim>\<open>v.length > 0\<close> (false where \<^verbatim>\<open>length\<close> is \<^verbatim>\<open>undefined\<close>).
\<close>

fun length_positive :: "jsval \<Rightarrow> bool" where
  "length_positive (JArr xs) = (xs \<noteq> [])"
| "length_positive (JStr s) = (s \<noteq> [])"
| "length_positive (JObj kvs) = (case map_of kvs ''length'' of Some (JNum n) \<Rightarrow> 0 < n | _ \<Rightarrow> False)"
| "length_positive v = False"

text \<open>
  \<^verbatim>\<open>chunkArray\<close>: \<^verbatim>\<open>for (let i = 0; i < array.length; i += size)\<close>. With size 0 and
  a non-empty array the loop does not end: there is no result.
\<close>

function chunks_from :: "'a list \<Rightarrow> nat \<Rightarrow> 'a list list" where
  "chunks_from xs n =
     (if xs = [] \<or> n = 0 then [] else take n xs # chunks_from (drop n xs) n)"
  by pat_completeness auto
termination
  by (relation "measure (\<lambda>(xs, n). length xs)") auto

definition chunkArray :: "'a list \<Rightarrow> nat \<Rightarrow> 'a list list option" where
  "chunkArray array n = (if n = 0 \<and> array \<noteq> [] then None else Some (chunks_from array n))"

lemma chunkArray_positive: "0 < n \<Longrightarrow> chunkArray array n = Some (chunks_from array n)"
  by (simp add: chunkArray_def)

text \<open>
  \<^verbatim>\<open>buildFieldQuery\<close> called with a value: \<^verbatim>\<open>term.replace\<close> exists on strings only.
  \<^verbatim>\<open>combineSearchTerms\<close>: \<^verbatim>\<open>terms.filter(t => t.trim()).join(` ${operator} `)\<close>.
\<close>

fun call_buildFieldQuery :: "jsval \<Rightarrow> string \<Rightarrow> js_error + string" where
  "call_buildFieldQuery (JStr s) field = Inr (buildFieldQuery s field)"
| "call_buildFieldQuery JUndefined field = Inl (TypeError ''Cannot read properties of undefined (reading replace)'')"
| "call_buildFieldQuery JNull field = Inl (TypeError ''Cannot read properties of null (reading replace)'')"
| "call_buildFieldQuery v field = Inl (TypeError ''term.replace is not a function'')"

definition combineSearchTerms :: "string list \<Rightarrow> string \<Rightarrow> string" where
  "combineSearchTerms terms operator =
     join ('' '' @ operator @ '' '') (filter (\<lambda>t. trim t \<noteq> []) terms)"

text \<open>\<^verbatim>\<open>xs.map(term => buildFieldQuery(term, field))\<close> on a value.\<close>

fun map_buildFieldQuery :: "jsval \<Rightarrow> string \<Rightarrow> js_error + string list" where
  "map_buildFieldQuery (JArr xs) field = collect (map (\<lambda>t. call_buildFieldQuery t field) xs)"
| "map_buildFieldQuery JUndefined field = Inl (TypeError ''Cannot read properties of undefined (reading map)'')"
| "map_buildFieldQuery JNull field = Inl (TypeError ''Cannot read properties of null (reading map)'')"
| "map_buildFieldQuery v field = Inl (TypeError ''map is not a function'')"

text \<open>
  \<^verbatim>\<open>extractErrorMessage\<close>: the message of an \<^verbatim>\<open>Error\<close>, a thrown string itself,
  \<^verbatim>\<open>String(error.message)\<close> for an object with a \<^verbatim>\<open>message\<close> member, and a
  fixed text otherwise.
\<close>

fun extractErrorMessage :: "js_error \<Rightarrow> string" where
  "extractErrorMessage (TypeError m) = m"
| "extractErrorMessage (Error m) = m"
| "extractErrorMessage (Thrown (JStr s)) = s"
| "extractErrorMessage (Thrown (JObj kvs)) =
     (case map_of kvs ''message'' of
        Some m \<Rightarrow> toString m
      | None \<Rightarrow> ''Unknown error occurred'')"
| "extractErrorMessage (Thrown v) = ''Unknown error occurred''"

text \<open>
  The article a client returns, read as the argument of \<^verbatim>\<open>formatCitation\<close>; its
  fields have the types \<^verbatim>\<open>PubMedArticle\<close> declares.
\<close>

definition string_field :: "jsval \<Rightarrow> string \<Rightarrow> string" where
  "string_field v k = (case opt_prop v k of JStr s \<Rightarrow> s | x \<Rightarrow> toString x)"

definition optional_field :: "jsval \<Rightarrow> string \<Rightarrow> string option" where
  "optional_field v k = (case opt_prop v k of JStr s \<Rightarrow> Some s | x \<Rightarrow> None)"

definition citation_author :: "jsval \<Rightarrow> author" where
  "citation_author a =
     \<lparr>lastName = string_field a ''lastName'', foreName = optional_field a ''foreName'',
      initials = optional_field a ''initials''\<rparr>"

definition citation_article :: "jsval \<Rightarrow> article" where
  "citation_article a =
     \<lparr>authors = map citation_author (elements (opt_prop a ''authors'')),
      title = string_field a ''title'', journal = string_field a ''journal'',
      publicationDate = string_field a ''publicationDate'',
      volume = optional_field a ''volume'', issue = optional_field a ''issue'',
      pages = optional_field a ''pages'', doi = optional_field a ''doi''\<rparr>"

definition style_of :: "jsval \<Rightarrow> string" where
  "style_of format = (case format of JStr s \<Rightarrow> s | x \<Rightarrow> [])"

subsection \<open>The handlers\<close>

text \<open>
  Each handler is written statement by statement as in \<^verbatim>\<open>index.ts\<close>.
  \<^verbatim>\<open>RegExp.prototype.test\<close> and template literals convert a value to a string.
\<close>

definition search_payload :: "(string \<times> jsval) list \<Rightarrow> jsval \<Rightarrow> tool_result" where
  "search_payload head searchResult =
     text_content (JObj (head @
       [(''totalResults'', opt_prop searchResult ''count''),
        (''pmids'', opt_prop searchResult ''pmids'')]))"

text \<open>The row of \<^verbatim>\<open>handleSearchArticles\<close> for one PMID of the summary document.\<close>

fun author_names :: "jsval \<Rightarrow> js_error + jsval" where
  "author_names JUndefined = Inr JUndefined"
| "author_names JNull = Inr JUndefined"
| "author_names (JArr xs) =
     (if \<exists>a \<in> set xs. a = JUndefined \<or> a = JNull
      then Inl (TypeError ''Cannot read properties of undefined (reading name)'')
      else Inr (JStr (array_join '', '' (map (\<lambda>a. opt_prop a ''name'') xs))))"
| "author_names v = Inl (TypeError ''summary.authors.map is not a function'')"

definition summary_row :: "jsval \<Rightarrow> jsval \<Rightarrow> js_error + jsval" where
  "summary_row result pmid =
     (let summary = opt_prop result (toString pmid)
      in case author_names (opt_prop summary ''authors'') of
           Inl e \<Rightarrow> Inl e
         | Inr names \<Rightarrow>
             Inr (JObj
               [(''pmid'', pmid),
                (''title'', or_else (opt_prop summary ''title'') (JStr [])),
                (''authors'', or_else names (JStr [])),
                (''journal'', or_else (opt_prop summary ''source'') (JStr [])),
                (''publicationDate'', or_else (opt_prop summary ''pubdate'') (JStr [])),
                (''doi'', or_else (opt_prop summary ''elocationid'') (JStr []))]))"

definition handleSearchArticles :: "'w client \<Rightarrow> jsval \<Rightarrow> ('w, tool_result) async" where
  "handleSearchArticles c args0 =
     await (destructure args0) (\<lambda>args.
       let query = opt_prop args ''query'';
           max_results = default_to (opt_prop args ''max_results'') (JNum 20);
           start = default_to (opt_prop args ''start'') (JNum 0);
           sort = opt_prop args ''sort'';
           params = JObj
             [(''term'', query), (''retmax'', max_results), (''retstart'', start),
              (''sort'', if sort = JStr ''pub_date'' then JStr ''pub+date'' else sort),
              (''mindate'', opt_prop args ''date_from''),
              (''maxdate'', opt_prop args ''date_to'')]
       in await (upstream (Search params) (search c params)) (\<lambda>searchResult.
            let pmids = elements (opt_prop searchResult ''pmids'');
                request = JObj [(''db'', JStr ''pubmed''), (''id'', JArr (take 20 pmids))]
            in await
                 (if pmids \<noteq> [] then
                    await (upstream (Summary request) (summary c request)) (\<lambda>summaries.
                      if truthy (opt_prop summaries ''result'')
                      then lift (collect (map (summary_row (opt_prop summaries ''result''))
                                    (take 20 pmids)))
                      else resolve [])
                  else resolve [])
                 (\<lambda>articles.
                    resolve (text_content (JObj
                      [(''totalResults'', opt_prop searchResult ''count''),
                       (''returnedResults'', JNum (int (length pmids))),
                       (''start'', opt_prop searchResult ''retstart''),
                       (''pmids'', opt_prop searchResult ''pmids''),
                       (''articles'', JArr articles),
                       (''queryTranslation'', opt_prop searchResult ''queryTranslation'')])))))"

text \<open>
  \<^verbatim>\<open>if (title) queryParts.push(buildFieldQuery(title, 'Title'))\<close> and
  \<^verbatim>\<open>if (mesh_terms && mesh_terms.length > 0) queryParts.push(`(${...join(' OR ')})`)\<close>.
\<close>

definition field_part :: "jsval \<Rightarrow> string \<Rightarrow> js_error + string list" where
  "field_part v field =
     (if truthy v
      then (case call_buildFieldQuery v field of Inl e \<Rightarrow> Inl e | Inr q \<Rightarrow> Inr [q])
      else Inr [])"

definition list_part :: "jsval \<Rightarrow> string \<Rightarrow> js_error + string list" where
  "list_part v field =
     (if truthy v \<and> length_positive v
      then (case map_buildFieldQuery v field of
              Inl e \<Rightarrow> Inl e
            | Inr qs \<Rightarrow> Inr [''('' @ join '' OR '' qs @ '')''])
      else Inr [])"

definition handleAdvancedSearch :: "'w client \<Rightarrow> jsval \<Rightarrow> ('w, tool_result) async" where
  "handleAdvancedSearch c args0 =
     await (destructure args0) (\<lambda>args.
       let boolean_operator = default_to (opt_prop args ''boolean_operator'') (JStr ''AND'');
           max_results = default_to (opt_prop args ''max_results'') (JNum 20)
       in await
            (lift (collect
              [field_part (opt_prop args ''title'') ''Title'',
               field_part (opt_prop args ''abstract'') ''Abstract'',
               field_part (opt_prop args ''author'') ''Author'',
               field_part (opt_prop args ''journal'') ''Journal'',
               list_part (opt_prop args ''mesh_terms'') ''MeSH Terms'',
               list_part (opt_prop args ''publication_types'') ''Publication Type'']))
            (\<lambda>parts.
               let queryParts = concat parts
               in if queryParts = []
                  then reject (Error ''At least one search field must be provided'')
                  else
                    let finalQuery = combineSearchTerms queryParts (toString boolean_operator);
                        params = JObj [(''term'', JStr finalQuery), (''retmax'', max_results)]
                    in await (upstream (Search params) (search c params)) (\<lambda>searchResult.
                         resolve (search_payload [(''query'', JStr finalQuery)] searchResult))))"

definition handleSearchByAuthor :: "'w client \<Rightarrow> jsval \<Rightarrow> ('w, tool_result) async" where
  "handleSearchByAuthor c args0 =
     await (destructure args0) (\<lambda>args.
       let author_name = opt_prop args ''author_name'';
           affiliation = opt_prop args ''affiliation'';
           max_results = default_to (opt_prop args ''max_results'') (JNum 50)
       in await (lift (call_buildFieldQuery author_name ''Author'')) (\<lambda>query.
            await
              (if truthy affiliation
               then await (lift (call_buildFieldQuery affiliation ''Affiliation'')) (\<lambda>q.
                      resolve (query @ '' AND '' @ q))
               else resolve query)
              (\<lambda>query.
                 let params = JObj [(''term'', JStr query), (''retmax'', max_results),
                                    (''sort'', JStr ''pub+date'')]
                 in await (upstream (Search params) (search c params)) (\<lambda>searchResult.
                      resolve (search_payload
                        [(''author'', author_name), (''affiliation'', affiliation)]
                        searchResult)))))"

definition handleSearchByJournal :: "'w client \<Rightarrow> jsval \<Rightarrow> ('w, tool_result) async" where
  "handleSearchByJournal c args0 =
     await (destructure args0) (\<lambda>args.
       let journal_name = opt_prop args ''journal_name'';
           keywords = opt_prop args ''keywords'';
           date_from = opt_prop args ''date_from'';
           date_to = opt_prop args ''date_to'';
           max_results = default_to (opt_prop args ''max_results'') (JNum 50)
       in await (lift (call_buildFieldQuery journal_name ''Journal'')) (\<lambda>query.
            let query = (if truthy keywords then query @ '' AND '' @ toString keywords else query);
                params = JObj [(''term'', JStr query), (''retmax'', max_results),
                               (''mindate'', date_from), (''maxdate'', date_to),
                               (''sort'', JStr ''pub+date'')]
            in await (upstream (Search params) (search c params)) (\<lambda>searchResult.
                 resolve (search_payload
                   [(''journal'', journal_name), (''keywords'', keywords),
                    (''dateRange'', JObj [(''from'', date_from), (''to'', date_to)])]
                   searchResult))))"

definition handleSearchByMeshTerms :: "'w client \<Rightarrow> jsval \<Rightarrow> ('w, tool_result) async" where
  "handleSearchByMeshTerms c args0 =
     await (destructure args0) (\<lambda>args.
       let mesh_terms = opt_prop args ''mesh_terms'';
           major_topic_only = default_to (opt_prop args ''major_topic_only'') (JBool False);
           max_results = default_to (opt_prop args ''max_results'') (JNum 50);
           field = (if truthy major_topic_only then ''MeSH Major Topic'' else ''MeSH Terms'')
       in await (lift (map_buildFieldQuery mesh_terms field)) (\<lambda>meshQueries.
            let query = combineSearchTerms meshQueries ''AND'';
                params = JObj [(''term'', JStr query), (''retmax'', max_results)]
            in await (upstream (Search params) (search c params)) (\<lambda>searchResult.
                 resolve (search_payload
                   [(''meshTerms'', mesh_terms), (''majorTopicOnly'', major_topic_only)]
                   searchResult))))"

text \<open>
  \<^verbatim>\<open>handleGetTrendingArticles\<close> reads the clock: \<^verbatim>\<open>dates days\<close> stands for the
  pair \<^verbatim>\<open>(formatDateForAPI(startDate), formatDateForAPI(endDate))\<close>.
\<close>

definition handleGetTrendingArticles ::
  "(jsval \<Rightarrow> string \<times> string) \<Rightarrow> 'w client \<Rightarrow> jsval \<Rightarrow> ('w, tool_result) async" where
  "handleGetTrendingArticles dates c args0 =
     await (destructure args0) (\<lambda>args.
       let field = opt_prop args ''field'';
           days = default_to (opt_prop args ''days'') (JNum 30);
           max_results = default_to (opt_prop args ''max_results'') (JNum 20);
           from = JStr (fst (dates days));
           to = JStr (snd (dates days));
           params = JObj [(''term'', field), (''retmax'', max_results), (''mindate'', from),
                          (''maxdate'', to), (''sort'', JStr ''pub+date'')]
       in await (upstream (Search params) (search c params)) (\<lambda>searchResult.
            resolve (search_payload
              [(''field'', field), (''days'', days),
               (''dateRange'', JObj [(''from'', from), (''to'', to)])]
              searchResult)))"

definition handleGetArticleDetails :: "'w client \<Rightarrow> jsval \<Rightarrow> ('w, tool_result) async" where
  "handleGetArticleDetails c args0 =
     await (destructure args0) (\<lambda>args.
       let pmid = opt_prop args ''pmid''
       in if \<not> isValidPMID (toString pmid)
          then reject (Error (''Invalid PMID format: '' @ toString pmid))
          else await (upstream (GetArticleDetails pmid) (getArticleDetails c pmid)) (\<lambda>article.
                 resolve (text_content article)))"

definition handleGetAbstract :: "'w client \<Rightarrow> jsval \<Rightarrow> ('w, tool_result) async" where
  "handleGetAbstract c args0 =
     await (destructure args0) (\<lambda>args.
       let pmid = opt_prop args ''pmid''
       in if \<not> isValidPMID (toString pmid)
          then reject (Error (''Invalid PMID format: '' @ toString pmid))
          else await (upstream (GetArticleDetails pmid) (getArticleDetails c pmid)) (\<lambda>article.
                 resolve (text_content (JObj
                   [(''pmid'', opt_prop article ''pmid''),
                    (''title'', opt_prop article ''title''),
                    (''abstract'', or_else (opt_prop article ''abstract'')
                                     (JStr ''No abstract available'')),
                    (''authors'', opt_prop article ''authors''),
                    (''journal'', opt_prop article ''journal''),
                    (''publicationDate'', opt_prop article ''publicationDate'')]))))"

definition handleGetFullText :: "'w client \<Rightarrow> jsval \<Rightarrow> ('w, tool_result) async" where
  "handleGetFullText c args0 =
     await (destructure args0) (\<lambda>args.
       let pmcid = opt_prop args ''pmcid''
       in if \<not> isValidPMCID (toString pmcid)
          then reject (Error (''Invalid PMC ID format: '' @ toString pmcid))
          else await (upstream (GetFullText pmcid) (getFullText c pmcid)) (\<lambda>fullText.
                 resolve (text_content fullText)))"

text \<open>
  The loop \<^verbatim>\<open>for (const chunk of chunks)\<close> of \<^verbatim>\<open>handleBatchArticleLookup\<close>,
  with \<^verbatim>\<open>allArticles\<close> as accumulator. The handler calls
  \<^verbatim>\<open>chunkArray(pmids, 50)\<close>, which returns \<^term>\<open>chunks_from (elements pmids) 50\<close>.
\<close>

fun fetch_chunks :: "'w client \<Rightarrow> jsval list list \<Rightarrow> jsval list \<Rightarrow> ('w, jsval list) async" where
  "fetch_chunks c [] allArticles = resolve allArticles"
| "fetch_chunks c (chunk # chunks) allArticles =
     await (upstream (GetArticlesBatch (JArr chunk)) (getArticlesBatch c (JArr chunk)))
       (\<lambda>articles. fetch_chunks c chunks (allArticles @ elements articles))"

definition handleBatchArticleLookup :: "'w client \<Rightarrow> jsval \<Rightarrow> ('w, tool_result) async" where
  "handleBatchArticleLookup c args0 =
     await (destructure args0) (\<lambda>args.
       let pmids = opt_prop args ''pmids''
       in if \<not> isArray pmids \<or> elements pmids = []
          then reject (Error ''pmids must be a non-empty array'')
          else if length (elements pmids) > 200
          then reject (Error ''Maximum 200 PMIDs allowed per batch'')
          else (case find (\<lambda>pmid. \<not> isValidPMID (toString pmid)) (elements pmids) of
                  Some pmid \<Rightarrow> reject (Error (''Invalid PMID format: '' @ toString pmid))
                | None \<Rightarrow>
                    await (fetch_chunks c (chunks_from (elements pmids) 50) []) (\<lambda>allArticles.
                      resolve (text_content (JObj
                        [(''totalRequested'', JNum (int (length (elements pmids)))),
                         (''totalRetrieved'', JNum (int (length allArticles))),
                         (''articles'', JArr allArticles)])))))"

definition handleGetCitedBy :: "'w client \<Rightarrow> jsval \<Rightarrow> ('w, tool_result) async" where
  "handleGetCitedBy c args0 =
     await (destructure args0) (\<lambda>args.
       let pmid = opt_prop args ''pmid'';
           max_results = default_to (opt_prop args ''max_results'') (JNum 100)
       in if \<not> isValidPMID (toString pmid)
          then reject (Error (''Invalid PMID format: '' @ toString pmid))
          else await (upstream (GetCitedBy pmid) (getCitedBy c pmid)) (\<lambda>citedByPmids.
                 resolve (text_content (JObj
                   [(''pmid'', pmid),
                    (''citationCount'', JNum (int (length (elements citedByPmids)))),
                    (''citedBy'', JArr (slice_to max_results (elements citedByPmids)))]))))"

definition handleGetReferences :: "'w client \<Rightarrow> jsval \<Rightarrow> ('w, tool_result) async" where
  "handleGetReferences c args0 =
     await (destructure args0) (\<lambda>args.
       let pmid = opt_prop args ''pmid'';
           max_results = default_to (opt_prop args ''max_results'') (JNum 100)
       in if \<not> isValidPMID (toString pmid)
          then reject (Error (''Invalid PMID format: '' @ toString pmid))
          else await (upstream (GetReferences pmid) (getReferences c pmid)) (\<lambda>referencePmids.
                 resolve (text_content (JObj
                   [(''pmid'', pmid),
                    (''referenceCount'', JNum (int (length (elements referencePmids)))),
                    (''references'', JArr (slice_to max_results (elements referencePmids)))]))))"

definition handleGetSimilarArticles :: "'w client \<Rightarrow> jsval \<Rightarrow> ('w, tool_result) async" where
  "handleGetSimilarArticles c args0 =
     await (destructure args0) (\<lambda>args.
       let pmid = opt_prop args ''pmid'';
           max_results = default_to (opt_prop args ''max_results'') (JNum 20)
       in if \<not> isValidPMID (toString pmid)
          then reject (Error (''Invalid PMID format: '' @ toString pmid))
          else await (upstream (GetSimilarArticles pmid max_results)
                        (getSimilarArticles c pmid max_results)) (\<lambda>similarPmids.
                 resolve (text_content (JObj
                   [(''pmid'', pmid), (''similarArticles'', similarPmids)]))))"

definition handleExportCitation :: "'w client \<Rightarrow> jsval \<Rightarrow> ('w, tool_result) async" where
  "handleExportCitation c args0 =
     await (destructure args0) (\<lambda>args.
       let pmid = opt_prop args ''pmid'';
           format = default_to (opt_prop args ''format'') (JStr ''apa'')
       in if \<not> isValidPMID (toString pmid)
          then reject (Error (''Invalid PMID format: '' @ toString pmid))
          else await (upstream (GetArticleDetails pmid) (getArticleDetails c pmid)) (\<lambda>article.
                 let citation = formatCitation (citation_article article) (style_of format)
                 in resolve (text_content (JObj
                      [(''pmid'', pmid), (''format'', format), (''citation'', JStr citation)]))))"

definition handleValidatePMID :: "'w client \<Rightarrow> jsval \<Rightarrow> ('w, tool_result) async" where
  "handleValidatePMID c args0 =
     await (destructure args0) (\<lambda>args.
       let pmid = opt_prop args ''pmid'';
           valid = isValidPMID (toString pmid)
       in if \<not> valid
          then resolve (text_content (JObj
                 [(''valid'', JBool False), (''pmid'', pmid),
                  (''message'', JStr ''Invalid PMID format. PMID must contain only digits.'')]))
          else try_catch
                 (await (upstream (GetArticleDetails pmid) (getArticleDetails c pmid)) (\<lambda>article.
                    resolve (text_content (JObj
                      [(''valid'', JBool True), (''pmid'', pmid), (''exists'', JBool True),
                       (''message'', JStr ''Valid PMID and article exists'')]))))
                 (\<lambda>error.
                    resolve (text_content (JObj
                      [(''valid'', JBool True), (''pmid'', pmid), (''exists'', JBool False),
                       (''message'', JStr ''Valid PMID format but article not found'')]))))"

text \<open>
  \<^verbatim>\<open>handleConvertIdentifiers\<close>. The type is detected before the \<^verbatim>\<open>try\<close> block;
  the lookups, and \<^verbatim>\<open>normalizePMCID\<close>, which needs a string, are inside it.
\<close>

definition detect_type :: "jsval \<Rightarrow> jsval \<Rightarrow> js_error + jsval" where
  "detect_type identifier identifier_type =
     (if identifier_type = JStr ''auto'' then
        (if isValidPMID (toString identifier) then Inr (JStr ''pmid'')
         else if isValidDOI (toString identifier) then Inr (JStr ''doi'')
         else if isValidPMCID (toString identifier) then Inr (JStr ''pmcid'')
         else Inl (Error ''Unable to auto-detect identifier type''))
      else Inr identifier_type)"

fun call_normalizePMCID :: "jsval \<Rightarrow> js_error + string" where
  "call_normalizePMCID (JStr s) = Inr (normalizePMCID s)"
| "call_normalizePMCID JUndefined = Inl (TypeError ''Cannot read properties of undefined (reading trim)'')"
| "call_normalizePMCID JNull = Inl (TypeError ''Cannot read properties of null (reading trim)'')"
| "call_normalizePMCID v = Inl (TypeError ''pmcid.trim is not a function'')"

definition article_ids :: "jsval \<Rightarrow> jsval" where
  "article_ids article =
     JObj [(''pmid'', opt_prop article ''pmid''), (''doi'', opt_prop article ''doi''),
           (''pmcid'', opt_prop article ''pmcid'')]"

definition lookup_first :: "'w client \<Rightarrow> string \<Rightarrow> ('w, jsval) async" where
  "lookup_first c term =
     (let params = JObj [(''term'', JStr term), (''retmax'', JNum 1)]
      in await (upstream (Search params) (search c params)) (\<lambda>searchResult.
           case elements (opt_prop searchResult ''pmids'') of
             [] \<Rightarrow> resolve (JObj [])
           | first # rest \<Rightarrow>
               await (upstream (GetArticleDetails first) (getArticleDetails c first)) (\<lambda>article.
                 resolve (article_ids article))))"

definition conversions_for :: "'w client \<Rightarrow> jsval \<Rightarrow> jsval \<Rightarrow> ('w, jsval) async" where
  "conversions_for c identifier inputType =
     (if inputType = JStr ''pmid'' then
        await (upstream (GetArticleDetails identifier) (getArticleDetails c identifier))
          (\<lambda>article. resolve (article_ids article))
      else if inputType = JStr ''doi'' then lookup_first c (toString identifier @ ''[DOI]'')
      else if inputType = JStr ''pmcid'' then
        await (lift (call_normalizePMCID identifier)) (\<lambda>normalizedId.
          lookup_first c (normalizedId @ ''[PMC ID]''))
      else resolve (JObj []))"

definition caught_payload :: "jsval \<Rightarrow> jsval \<Rightarrow> js_error \<Rightarrow> tool_result" where
  "caught_payload identifier inputType error =
     text_content (JObj
       [(''inputId'', identifier), (''inputType'', inputType), (''conversions'', JObj []),
        (''error'', JStr (extractErrorMessage error))])"

definition handleConvertIdentifiers :: "'w client \<Rightarrow> jsval \<Rightarrow> ('w, tool_result) async" where
  "handleConvertIdentifiers c args0 =
     await (destructure args0) (\<lambda>args.
       let identifier = opt_prop args ''identifier'';
           identifier_type = default_to (opt_prop args ''identifier_type'') (JStr ''auto'')
       in await (lift (detect_type identifier identifier_type)) (\<lambda>inputType.
            try_catch
              (await (conversions_for c identifier inputType) (\<lambda>conversions.
                 resolve (text_content (JObj
                   [(''inputId'', identifier), (''inputType'', inputType),
                    (''conversions'', conversions)]))))
              (\<lambda>error. resolve (caught_payload identifier inputType error))))"

text \<open>The sixteen tools and the handler that the \<^verbatim>\<open>switch\<close> selects for each.\<close>

datatype tool =
    search_articles | advanced_search | search_by_author | search_by_journal
  | search_by_mesh_terms | get_trending_articles | get_article_details | get_abstract
  | get_full_text | batch_article_lookup | get_cited_by | get_references
  | get_similar_articles | export_citation | validate_pmid | convert_identifiers

fun handler ::
  "(jsval \<Rightarrow> string \<times> string) \<Rightarrow> 'w client \<Rightarrow> tool \<Rightarrow> jsval \<Rightarrow> ('w, tool_result) async" where
  "handler dates c search_articles = handleSearchArticles c"
| "handler dates c advanced_search = handleAdvancedSearch c"
| "handler dates c search_by_author = handleSearchByAuthor c"
| "handler dates c search_by_journal = handleSearchByJournal c"
| "handler dates c search_by_mesh_terms = handleSearchByMeshTerms c"
| "handler dates c get_trending_articles = handleGetTrendingArticles dates c"
| "handler dates c get_article_details = handleGetArticleDetails c"
| "handler dates c get_abstract = handleGetAbstract c"
| "handler dates c get_full_text = handleGetFullText c"
| "handler dates c batch_article_lookup = handleBatchArticleLookup c"
| "handler dates c get_cited_by = handleGetCitedBy c"
| "handler dates c get_references = handleGetReferences c"
| "handler dates c get_similar_articles = handleGetSimilarArticles c"
| "handler dates c export_citation = handleExportCitation c"
| "handler dates c validate_pmid = handleValidatePMID c"
| "handler dates c convert_identifiers = handleConvertIdentifiers c"

subsection \<open>Which handlers pass an upstream failure on\<close>

text \<open>
  A computation passes upstream failures on when, in every run, each client call that
  threw during the run threw the very error the computation ends with.
\<close>

definition propagates :: "('w, 'a) async \<Rightarrow> bool" where
  "propagates m \<longleftrightarrow>
     (\<forall>w log r w' log'. m (w, log) = (r, (w', log')) \<longrightarrow>
        (\<exists>new. log' = log @ new \<and> (\<forall>c e. (c, Some e) \<in> set new \<longrightarrow> r = Inl e)))"

lemma propagates_resolve: "propagates (resolve v)"
  by (simp add: propagates_def resolve_def)

lemma propagates_reject: "propagates (reject e)"
  by (simp add: propagates_def reject_def)

lemma propagates_lift: "propagates (lift r)"
  by (simp add: propagates_def lift_def)

lemma propagates_upstream: "propagates (upstream c f)"
  by (auto simp: propagates_def upstream_def split: prod.splits sum.splits)

lemma propagates_await:
  assumes m: "propagates m" and f: "\<And>v. propagates (f v)"
  shows "propagates (await m f)"
  unfolding propagates_def
proof (intro allI impI)
  fix w log r w' log'
  assume run: "await m f (w, log) = (r, (w', log'))"
  obtain r1 w1 log1 where m1: "m (w, log) = (r1, (w1, log1))"
    by (metis prod.exhaust)
  with m obtain new1 where l1: "log1 = log @ new1"
    and p1: "\<And>c e. (c, Some e) \<in> set new1 \<Longrightarrow> r1 = Inl e"
    unfolding propagates_def by blast
  show "\<exists>new. log' = log @ new \<and> (\<forall>c e. (c, Some e) \<in> set new \<longrightarrow> r = Inl e)"
  proof (cases r1)
    case (Inl e1)
    with run m1 have "r = Inl e1" and "log' = log1" by (simp_all add: await_def)
    with l1 p1 Inl show ?thesis by auto
  next
    case (Inr v)
    with run m1 have "f v (w1, log1) = (r, (w', log'))" by (simp add: await_def)
    with f [of v] obtain new2 where l2: "log' = log1 @ new2"
      and p2: "\<And>c e. (c, Some e) \<in> set new2 \<Longrightarrow> r = Inl e"
      unfolding propagates_def by blast
    from p1 Inr have "\<And>c e. (c, Some e) \<notin> set new1" by fastforce
    with l1 l2 p2 show ?thesis by auto
  qed
qed

lemma propagates_destructure: "propagates (destructure args)"
  by (simp add: destructure_def propagates_resolve propagates_reject)

lemma propagates_fetch_chunks: "propagates (fetch_chunks c chunks acc)"
  by (induction chunks arbitrary: acc)
     (simp_all add: propagates_resolve propagates_await propagates_upstream)

lemmas propagates_intros =
  propagates_await propagates_destructure propagates_upstream propagates_resolve
  propagates_reject propagates_lift propagates_fetch_chunks

lemma propagates_handleSearchArticles: "propagates (handleSearchArticles c args)"
  unfolding handleSearchArticles_def Let_def
  by (auto intro!: propagates_intros)

lemma propagates_handleAdvancedSearch: "propagates (handleAdvancedSearch c args)"
  unfolding handleAdvancedSearch_def Let_def
  by (auto intro!: propagates_intros)

lemma propagates_handleSearchByAuthor: "propagates (handleSearchByAuthor c args)"
  unfolding handleSearchByAuthor_def Let_def
  by (auto intro!: propagates_intros)

lemma propagates_handleSearchByJournal: "propagates (handleSearchByJournal c args)"
  unfolding handleSearchByJournal_def Let_def
  by (auto intro!: propagates_intros)

lemma propagates_handleSearchByMeshTerms: "propagates (handleSearchByMeshTerms c args)"
  unfolding handleSearchByMeshTerms_def Let_def
  by (auto intro!: propagates_intros)

lemma propagates_handleGetTrendingArticles: "propagates (handleGetTrendingArticles dates c args)"
  unfolding handleGetTrendingArticles_def Let_def
  by (auto intro!: propagates_intros)

lemma propagates_handleGetArticleDetails: "propagates (handleGetArticleDetails c args)"
  unfolding handleGetArticleDetails_def Let_def
  by (auto intro!: propagates_intros)

lemma propagates_handleGetAbstract: "propagates (handleGetAbstract c args)"
  unfolding handleGetAbstract_def Let_def
  by (auto intro!: propagates_intros)

lemma propagates_handleGetFullText: "propagates (handleGetFullText c args)"
  unfolding handleGetFullText_def Let_def
  by (auto intro!: propagates_intros)

lemma propagates_handleBatchArticleLookup: "propagates (handleBatchArticleLookup c args)"
  unfolding handleBatchArticleLookup_def Let_def
  by (auto intro!: propagates_intros split: option.splits)

lemma propagates_handleGetCitedBy: "propagates (handleGetCitedBy c args)"
  unfolding handleGetCitedBy_def Let_def
  by (auto intro!: propagates_intros)

lemma propagates_handleGetReferences: "propagates (handleGetReferences c args)"
  unfolding handleGetReferences_def Let_def
  by (auto intro!: propagates_intros)

lemma propagates_handleGetSimilarArticles: "propagates (handleGetSimilarArticles c args)"
  unfolding handleGetSimilarArticles_def Let_def
  by (auto intro!: propagates_intros)

lemma propagates_handleExportCitation: "propagates (handleExportCitation c args)"
  unfolding handleExportCitation_def Let_def
  by (auto intro!: propagates_intros)

lemma propagates_lookup_first: "propagates (lookup_first c term)"
  unfolding lookup_first_def Let_def
  by (auto intro!: propagates_intros split: list.splits)

lemma propagates_conversions_for: "propagates (conversions_for c identifier inputType)"
  unfolding conversions_for_def
  by (auto intro!: propagates_intros propagates_lookup_first)

subsection \<open>Validation comes before any client call\<close>

lemma await_destructure:
  "args \<noteq> JUndefined \<Longrightarrow> args \<noteq> JNull \<Longrightarrow> await (destructure args) f = f args"
  by (simp add: await_def destructure_def resolve_def fun_eq_iff)

lemma await_reject: "await (reject e) f = reject e"
  by (simp add: await_def reject_def fun_eq_iff)

lemma await_lift_Inr: "await (lift (Inr v)) f = f v"
  by (simp add: await_def lift_def fun_eq_iff)

lemma await_lift_Inl: "await (lift (Inl e)) f = reject e"
  by (simp add: await_def lift_def reject_def fun_eq_iff)

lemma destructure_nullish:
  "args = JUndefined \<or> args = JNull \<Longrightarrow>
     await (destructure args) f s = (Inl (TypeError (''Cannot destructure '' @ toString args)), s)"
  by (auto simp: await_def destructure_def reject_def)

text \<open>A malformed batch, as \<^verbatim>\<open>handleBatchArticleLookup\<close> checks it.\<close>

definition malformed_batch :: "jsval \<Rightarrow> bool" where
  "malformed_batch pmids \<longleftrightarrow>
     \<not> isArray pmids \<or> elements pmids = [] \<or> length (elements pmids) > 200
       \<or> list_ex (\<lambda>p. \<not> isValidPMID (toString p)) (elements pmids)"

definition batch_message :: "jsval \<Rightarrow> string \<Rightarrow> bool" where
  "batch_message pmids msg \<longleftrightarrow>
     msg = ''pmids must be a non-empty array'' \<or> msg = ''Maximum 200 PMIDs allowed per batch''
       \<or> list_ex (\<lambda>p. \<not> isValidPMID (toString p) \<and> msg = ''Invalid PMID format: '' @ toString p)
            (elements pmids)"

definition invalid_pmid_payload :: "jsval \<Rightarrow> tool_result" where
  "invalid_pmid_payload pmid =
     text_content (JObj
       [(''valid'', JBool False), (''pmid'', pmid),
        (''message'', JStr ''Invalid PMID format. PMID must contain only digits.'')])"

lemma batch_rejected:
  assumes "args \<noteq> JUndefined" and "args \<noteq> JNull" and "malformed_batch (opt_prop args ''pmids'')"
  shows "\<exists>msg. handleBatchArticleLookup c args s = (Inl (Error msg), s)
           \<and> batch_message (opt_prop args ''pmids'') msg"
proof -
  let ?pmids = "opt_prop args ''pmids''"
  consider (shape) "\<not> isArray ?pmids \<or> elements ?pmids = []"
    | (many) "isArray ?pmids" "elements ?pmids \<noteq> []" "length (elements ?pmids) > 200"
    | (bad) "isArray ?pmids" "elements ?pmids \<noteq> []" "\<not> length (elements ?pmids) > 200"
        "list_ex (\<lambda>p. \<not> isValidPMID (toString p)) (elements ?pmids)"
    using assms(3) unfolding malformed_batch_def by blast
  then show ?thesis
  proof cases
    case shape
    then show ?thesis
      using assms(1,2)
      by (auto simp: handleBatchArticleLookup_def await_destructure Let_def reject_def
          batch_message_def)
  next
    case many
    then show ?thesis
      using assms(1,2)
      by (auto simp: handleBatchArticleLookup_def await_destructure Let_def reject_def
          batch_message_def)
  next
    case bad
    then obtain p where f: "find (\<lambda>pmid. \<not> isValidPMID (toString pmid)) (elements ?pmids) = Some p"
      by (cases "find (\<lambda>pmid. \<not> isValidPMID (toString pmid)) (elements ?pmids)")
         (auto simp: find_None_iff list_ex_iff)
    then have "p \<in> set (elements ?pmids)" and "\<not> isValidPMID (toString p)"
      by (auto simp: find_Some_iff)
    then have "batch_message ?pmids (''Invalid PMID format: '' @ toString p)"
      unfolding batch_message_def list_ex_iff by blast
    moreover have "handleBatchArticleLookup c args s
        = (Inl (Error (''Invalid PMID format: '' @ toString p)), s)"
      using assms(1,2) bad f
      by (simp add: handleBatchArticleLookup_def await_destructure Let_def reject_def)
    ultimately show ?thesis by blast
  qed
qed

text \<open>
  C5, as amended. A call of one of the six tools that validate a PMID with a
  \<^verbatim>\<open>pmid\<close> failing \<^const>\<open>isValidPMID\<close>, a call of \<^verbatim>\<open>get_full_text\<close> with a
  \<^verbatim>\<open>pmcid\<close> failing \<^const>\<open>isValidPMCID\<close>, and a call of
  \<^verbatim>\<open>batch_article_lookup\<close> with a malformed batch each end with a descriptive
  \<^verbatim>\<open>Error\<close> and leave the session as it was: no client method was called. A
  call without an argument object ends with a \<^verbatim>\<open>TypeError\<close>, for every tool, and
  the session is left as it was too. \<^verbatim>\<open>validate_pmid\<close> answers an invalid
  \<^verbatim>\<open>pmid\<close> with an ordinary result, also without a client call.
\<close>

theorem malformed_identifier_rejected:
  "(tool \<in> {get_article_details, get_abstract, get_cited_by, get_references,
             get_similar_articles, export_citation}
      \<and> args \<noteq> JUndefined \<and> args \<noteq> JNull \<and> \<not> isValidPMID (toString (opt_prop args ''pmid''))
    \<longrightarrow> handler dates c tool args s
          = (Inl (Error (''Invalid PMID format: '' @ toString (opt_prop args ''pmid''))), s))
   \<and> (args \<noteq> JUndefined \<and> args \<noteq> JNull \<and> \<not> isValidPMCID (toString (opt_prop args ''pmcid''))
    \<longrightarrow> handler dates c get_full_text args s
          = (Inl (Error (''Invalid PMC ID format: '' @ toString (opt_prop args ''pmcid''))), s))
   \<and> (args \<noteq> JUndefined \<and> args \<noteq> JNull \<and> malformed_batch (opt_prop args ''pmids'')
    \<longrightarrow> (\<exists>msg. handler dates c batch_article_lookup args s = (Inl (Error msg), s)
               \<and> batch_message (opt_prop args ''pmids'') msg))
   \<and> (args = JUndefined \<or> args = JNull
    \<longrightarrow> handler dates c tool args s = (Inl (TypeError (''Cannot destructure '' @ toString args)), s))
   \<and> (args \<noteq> JUndefined \<and> args \<noteq> JNull \<and> \<not> isValidPMID (toString (opt_prop args ''pmid''))
    \<longrightarrow> handler dates c validate_pmid args s
          = (Inr (invalid_pmid_payload (opt_prop args ''pmid'')), s))"
proof (intro conjI impI)
  assume "tool \<in> {get_article_details, get_abstract, get_cited_by, get_references,
             get_similar_articles, export_citation}
      \<and> args \<noteq> JUndefined \<and> args \<noteq> JNull \<and> \<not> isValidPMID (toString (opt_prop args ''pmid''))"
  then show "handler dates c tool args s
          = (Inl (Error (''Invalid PMID format: '' @ toString (opt_prop args ''pmid''))), s)"
    by (auto simp: handleGetArticleDetails_def handleGetAbstract_def handleGetCitedBy_def
        handleGetReferences_def handleGetSimilarArticles_def handleExportCitation_def
        await_destructure Let_def reject_def)
next
  assume "args \<noteq> JUndefined \<and> args \<noteq> JNull \<and> \<not> isValidPMCID (toString (opt_prop args ''pmcid''))"
  then show "handler dates c get_full_text args s
          = (Inl (Error (''Invalid PMC ID format: '' @ toString (opt_prop args ''pmcid''))), s)"
    by (simp add: handleGetFullText_def await_destructure Let_def reject_def)
next
  assume "args \<noteq> JUndefined \<and> args \<noteq> JNull \<and> malformed_batch (opt_prop args ''pmids'')"
  then show "\<exists>msg. handler dates c batch_article_lookup args s = (Inl (Error msg), s)
               \<and> batch_message (opt_prop args ''pmids'') msg"
    using batch_rejected [of args c s] by simp
next
  assume "args = JUndefined \<or> args = JNull"
  then show "handler dates c tool args s = (Inl (TypeError (''Cannot destructure '' @ toString args)), s)"
    by (cases tool)
       (simp_all add: handleSearchArticles_def handleAdvancedSearch_def handleSearchByAuthor_def
         handleSearchByJournal_def handleSearchByMeshTerms_def handleGetTrendingArticles_def
         handleGetArticleDetails_def handleGetAbstract_def handleGetFullText_def
         handleBatchArticleLookup_def handleGetCitedBy_def handleGetReferences_def
         handleGetSimilarArticles_def handleExportCitation_def handleValidatePMID_def
         handleConvertIdentifiers_def destructure_nullish)
next
  assume "args \<noteq> JUndefined \<and> args \<noteq> JNull \<and> \<not> isValidPMID (toString (opt_prop args ''pmid''))"
  then show "handler dates c validate_pmid args s
          = (Inr (invalid_pmid_payload (opt_prop args ''pmid'')), s)"
    by (simp add: handleValidatePMID_def await_destructure Let_def resolve_def
        invalid_pmid_payload_def)
qed

text \<open>A client for a network that is down: every method throws, and counts the call.\<close>

definition offline :: "nat upstream_op" where
  "offline n = (Inl (Error ''Network Error''), Suc n)"

definition offline_client :: "nat client" where
  "offline_client =
     \<lparr>search = (\<lambda>p. offline), summary = (\<lambda>p. offline), getArticleDetails = (\<lambda>p. offline),
      getArticlesBatch = (\<lambda>p. offline), getCitedBy = (\<lambda>p. offline),
      getReferences = (\<lambda>p. offline), getSimilarArticles = (\<lambda>p q. offline),
      getFullText = (\<lambda>p. offline)\<rparr>"

definition no_dates :: "jsval \<Rightarrow> string \<times> string" where
  "no_dates days = (''2026/10/04'', ''2026/11/03'')"

theorem malformed_identifier_rejected_witness:
  "handler no_dates offline_client get_article_details (JObj [(''pmid'', JStr ''12a'')]) (0, [])
     = (Inl (Error ''Invalid PMID format: 12a''), (0, []))
   \<and> handler no_dates offline_client get_full_text (JObj [(''pmcid'', JStr ''PMC'')]) (0, [])
     = (Inl (Error ''Invalid PMC ID format: PMC''), (0, []))
   \<and> (\<exists>msg. handler no_dates offline_client batch_article_lookup
               (JObj [(''pmids'', JArr [JStr ''1'', JStr ''x''])]) (0, [])
             = (Inl (Error msg), (0, [])))
   \<and> handler no_dates offline_client search_articles JUndefined (0, [])
     = (Inl (TypeError ''Cannot destructure undefined''), (0, []))
   \<and> handler no_dates offline_client validate_pmid (JObj [(''pmid'', JStr ''12a'')]) (0, [])
     = (Inr (invalid_pmid_payload (JStr ''12a'')), (0, []))"
proof -
  note rejected = malformed_identifier_rejected
    [where dates = no_dates and c = offline_client and s = "(0, [])"]
  have pmid: "\<not> isValidPMID (toString (opt_prop (JObj [(''pmid'', JStr ''12a'')]) ''pmid''))"
    by code_simp
  have pmcid: "\<not> isValidPMCID (toString (opt_prop (JObj [(''pmcid'', JStr ''PMC'')]) ''pmcid''))"
    by code_simp
  have batch: "malformed_batch (opt_prop (JObj [(''pmids'', JArr [JStr ''1'', JStr ''x''])]) ''pmids'')"
    by code_simp
  have 1: "handler no_dates offline_client get_article_details (JObj [(''pmid'', JStr ''12a'')]) (0, [])
     = (Inl (Error ''Invalid PMID format: 12a''), (0, []))"
    using rejected [where tool = get_article_details and args = "JObj [(''pmid'', JStr ''12a'')]"] pmid
    by simp
  have 2: "handler no_dates offline_client get_full_text (JObj [(''pmcid'', JStr ''PMC'')]) (0, [])
     = (Inl (Error ''Invalid PMC ID format: PMC''), (0, []))"
    using rejected [where args = "JObj [(''pmcid'', JStr ''PMC'')]"] pmcid
    by simp
  have 3: "\<exists>msg. handler no_dates offline_client batch_article_lookup
               (JObj [(''pmids'', JArr [JStr ''1'', JStr ''x''])]) (0, [])
             = (Inl (Error msg), (0, []))"
    using rejected [where args = "JObj [(''pmids'', JArr [JStr ''1'', JStr ''x''])]"] batch
    by blast
  have 4: "handler no_dates offline_client search_articles JUndefined (0, [])
     = (Inl (TypeError ''Cannot destructure undefined''), (0, []))"
    using rejected [where tool = search_articles and args = JUndefined] by simp
  have 5: "handler no_dates offline_client validate_pmid (JObj [(''pmid'', JStr ''12a'')]) (0, [])
     = (Inr (invalid_pmid_payload (JStr ''12a'')), (0, []))"
    using rejected [where args = "JObj [(''pmid'', JStr ''12a'')]"] pmid
    by simp
  from 1 2 3 4 5 show ?thesis by blast
qed

text \<open>
  C5, as stated, fails on two tools. \<^verbatim>\<open>validate_pmid\<close> raises nothing on a
  \<^verbatim>\<open>pmid\<close> that fails \<^const>\<open>isValidPMID\<close>: it returns a result. And
  \<^verbatim>\<open>convert_identifiers\<close>, told that the identifier is a \<^verbatim>\<open>pmid\<close>, does not
  validate it: the client is called with the malformed identifier.
\<close>

theorem malformed_identifier_counterexample:
  "\<not> isValidPMID ''12a''
   \<and> handler no_dates offline_client validate_pmid (JObj [(''pmid'', JStr ''12a'')]) (0, [])
     = (Inr (invalid_pmid_payload (JStr ''12a'')), (0, []))
   \<and> handler no_dates offline_client convert_identifiers
       (JObj [(''identifier'', JStr ''12a''), (''identifier_type'', JStr ''pmid'')]) (0, [])
     = (Inr (caught_payload (JStr ''12a'') (JStr ''pmid'') (Error ''Network Error'')),
        (1, [(GetArticleDetails (JStr ''12a''), Some (Error ''Network Error''))]))"
  by code_simp

subsection \<open>Handlers that catch a client failure\<close>

lemma try_catch_propagates:
  assumes "propagates m" and "try_catch m (\<lambda>e. resolve (k e)) (w, calls) = (r, (w', calls'))"
  shows "(\<exists>v. r = Inr v) \<and>
         (\<exists>new. calls' = calls @ new \<and> (\<forall>c e. (c, Some e) \<in> set new \<longrightarrow> r = Inr (k e)))"
proof -
  obtain r1 w1 calls1 where m1: "m (w, calls) = (r1, (w1, calls1))"
    by (metis prod.exhaust)
  with assms(1) obtain new where l1: "calls1 = calls @ new"
    and p1: "\<And>c e. (c, Some e) \<in> set new \<Longrightarrow> r1 = Inl e"
    unfolding propagates_def by blast
  show ?thesis
  proof (cases r1)
    case (Inl e1)
    with assms(2) m1 have "r = Inr (k e1)" and "calls' = calls1"
      by (simp_all add: try_catch_def resolve_def)
    with l1 p1 Inl show ?thesis by auto
  next
    case (Inr v)
    with assms(2) m1 have "r = Inr v" and "calls' = calls1"
      by (simp_all add: try_catch_def)
    moreover from p1 Inr have "\<And>c e. (c, Some e) \<notin> set new" by fastforce
    ultimately show ?thesis using l1 by auto
  qed
qed

definition not_found_payload :: "jsval \<Rightarrow> tool_result" where
  "not_found_payload pmid =
     text_content (JObj
       [(''valid'', JBool True), (''pmid'', pmid), (''exists'', JBool False),
        (''message'', JStr ''Valid PMID format but article not found'')])"

text \<open>
  C10, as amended. When the identifier type of a \<^verbatim>\<open>convert_identifiers\<close> call is
  resolved, the handler never throws: its result is an ordinary content block, and when
  a client call threw \<^verbatim>\<open>e\<close> during the run, the block is the JSON of the input
  identifier, the type, an empty \<^verbatim>\<open>conversions\<close> object and
  \<^verbatim>\<open>extractErrorMessage(e)\<close> under \<^verbatim>\<open>error\<close>. \<^verbatim>\<open>validate_pmid\<close> does not
  throw either: a client failure becomes the result \<^verbatim>\<open>exists: false\<close>. The other
  fourteen handlers pass a client failure on.
\<close>

theorem upstream_failure_caught_or_rethrown:
  "(args \<noteq> JUndefined \<and> args \<noteq> JNull
      \<and> detect_type (opt_prop args ''identifier'')
            (default_to (opt_prop args ''identifier_type'') (JStr ''auto'')) = Inr inputType
      \<and> handleConvertIdentifiers c args (w, calls) = (r, (w', calls'))
    \<longrightarrow> (\<exists>payload. r = Inr payload)
        \<and> (\<exists>new. calls' = calls @ new
              \<and> (\<forall>call e. (call, Some e) \<in> set new
                    \<longrightarrow> r = Inr (caught_payload (opt_prop args ''identifier'') inputType e))))
   \<and> (args \<noteq> JUndefined \<and> args \<noteq> JNull
      \<and> handleValidatePMID c args (w, calls) = (r, (w', calls'))
    \<longrightarrow> (\<exists>payload. r = Inr payload)
        \<and> (\<exists>new. calls' = calls @ new
              \<and> (\<forall>call e. (call, Some e) \<in> set new
                    \<longrightarrow> r = Inr (not_found_payload (opt_prop args ''pmid'')))))
   \<and> (tool \<noteq> convert_identifiers \<and> tool \<noteq> validate_pmid
    \<longrightarrow> propagates (handler dates c tool args))"
proof (intro conjI impI)
  assume a: "args \<noteq> JUndefined \<and> args \<noteq> JNull
      \<and> detect_type (opt_prop args ''identifier'')
            (default_to (opt_prop args ''identifier_type'') (JStr ''auto'')) = Inr inputType
      \<and> handleConvertIdentifiers c args (w, calls) = (r, (w', calls'))"
  let ?identifier = "opt_prop args ''identifier''"
  let ?body = "await (conversions_for c ?identifier inputType) (\<lambda>conversions.
                 resolve (text_content (JObj
                   [(''inputId'', ?identifier), (''inputType'', inputType),
                    (''conversions'', conversions)])))"
  have p: "propagates ?body"
    by (intro propagates_await propagates_conversions_for propagates_resolve)
  from a have args: "args \<noteq> JUndefined" "args \<noteq> JNull"
    and detected: "detect_type (opt_prop args ''identifier'')
            (default_to (opt_prop args ''identifier_type'') (JStr ''auto'')) = Inr inputType"
    and run: "handleConvertIdentifiers c args (w, calls) = (r, (w', calls'))"
    by simp_all
  from run have "try_catch ?body (\<lambda>error. resolve (caught_payload ?identifier inputType error)) (w, calls)
      = (r, (w', calls'))"
    by (simp add: handleConvertIdentifiers_def await_destructure [OF args] detected
        await_lift_Inr Let_def)
  from try_catch_propagates [OF p this]
  show "\<exists>payload. r = Inr payload"
    and "\<exists>new. calls' = calls @ new
              \<and> (\<forall>call e. (call, Some e) \<in> set new
                    \<longrightarrow> r = Inr (caught_payload (opt_prop args ''identifier'') inputType e))"
    by blast+
next
  assume a: "args \<noteq> JUndefined \<and> args \<noteq> JNull
      \<and> handleValidatePMID c args (w, calls) = (r, (w', calls'))"
  let ?pmid = "opt_prop args ''pmid''"
  let ?body = "await (upstream (GetArticleDetails ?pmid) (getArticleDetails c ?pmid)) (\<lambda>article.
                    resolve (text_content (JObj
                      [(''valid'', JBool True), (''pmid'', ?pmid), (''exists'', JBool True),
                       (''message'', JStr ''Valid PMID and article exists'')])))"
  have p: "propagates ?body"
    by (intro propagates_await propagates_upstream propagates_resolve)
  from a have args: "args \<noteq> JUndefined" "args \<noteq> JNull"
    and run: "handleValidatePMID c args (w, calls) = (r, (w', calls'))"
    by simp_all
  have "(\<exists>payload. r = Inr payload)
        \<and> (\<exists>new. calls' = calls @ new
              \<and> (\<forall>call e. (call, Some e) \<in> set new
                    \<longrightarrow> r = Inr (not_found_payload (opt_prop args ''pmid''))))"
  proof (cases "isValidPMID (toString ?pmid)")
    case False
    with run have "r = Inr (invalid_pmid_payload ?pmid)" and "calls' = calls"
      by (simp_all add: handleValidatePMID_def await_destructure [OF args] Let_def resolve_def
          invalid_pmid_payload_def)
    then show ?thesis by simp
  next
    case True
    with run have "try_catch ?body (\<lambda>error. resolve (not_found_payload ?pmid)) (w, calls)
        = (r, (w', calls'))"
      by (simp add: handleValidatePMID_def await_destructure [OF args] Let_def
          not_found_payload_def)
    from try_catch_propagates [OF p this] show ?thesis by blast
  qed
  then show "\<exists>payload. r = Inr payload"
    and "\<exists>new. calls' = calls @ new
              \<and> (\<forall>call e. (call, Some e) \<in> set new
                    \<longrightarrow> r = Inr (not_found_payload (opt_prop args ''pmid'')))"
    by blast+
next
  assume "tool \<noteq> convert_identifiers \<and> tool \<noteq> validate_pmid"
  then show "propagates (handler dates c tool args)"
    by (cases tool)
       (simp_all add: propagates_handleSearchArticles propagates_handleAdvancedSearch
         propagates_handleSearchByAuthor propagates_handleSearchByJournal
         propagates_handleSearchByMeshTerms propagates_handleGetTrendingArticles
         propagates_handleGetArticleDetails propagates_handleGetAbstract
         propagates_handleGetFullText propagates_handleBatchArticleLookup
         propagates_handleGetCitedBy propagates_handleGetReferences
         propagates_handleGetSimilarArticles propagates_handleExportCitation)
qed

theorem upstream_failure_caught_or_rethrown_witness:
  "fst (handler no_dates offline_client convert_identifiers
          (JObj [(''identifier'', JStr ''31452104'')]) (0, []))
     = Inr (caught_payload (JStr ''31452104'') (JStr ''pmid'') (Error ''Network Error''))
   \<and> fst (handler no_dates offline_client validate_pmid (JObj [(''pmid'', JStr ''31452104'')]) (0, []))
     = Inr (not_found_payload (JStr ''31452104''))
   \<and> fst (handler no_dates offline_client get_cited_by (JObj [(''pmid'', JStr ''31452104'')]) (0, []))
     = Inl (Error ''Network Error'')"
proof -
  let ?failed = "(GetArticleDetails (JStr ''31452104''), Some (Error ''Network Error''))"
  note caught = upstream_failure_caught_or_rethrown
    [where c = offline_client and w = 0 and calls = "[]" and dates = no_dates]
  have detected: "detect_type (opt_prop (JObj [(''identifier'', JStr ''31452104'')]) ''identifier'')
      (default_to (opt_prop (JObj [(''identifier'', JStr ''31452104'')]) ''identifier_type'')
         (JStr ''auto'')) = Inr (JStr ''pmid'')"
    by code_simp
  have "snd (handleConvertIdentifiers offline_client (JObj [(''identifier'', JStr ''31452104'')]) (0, []))
      = (1, [?failed])"
    by code_simp
  then obtain r where run: "handleConvertIdentifiers offline_client
      (JObj [(''identifier'', JStr ''31452104'')]) (0, []) = (r, (1, [?failed]))"
    by (metis prod.collapse)
  have "r = Inr (caught_payload (JStr ''31452104'') (JStr ''pmid'') (Error ''Network Error''))"
    using caught [where args = "JObj [(''identifier'', JStr ''31452104'')]" and r = r and w' = 1
        and calls' = "[?failed]" and inputType = "JStr ''pmid''"] detected run
    by simp
  with run have 1: "fst (handler no_dates offline_client convert_identifiers
          (JObj [(''identifier'', JStr ''31452104'')]) (0, []))
     = Inr (caught_payload (JStr ''31452104'') (JStr ''pmid'') (Error ''Network Error''))"
    by simp
  have "snd (handleValidatePMID offline_client (JObj [(''pmid'', JStr ''31452104'')]) (0, []))
      = (1, [?failed])"
    by code_simp
  then obtain r2 where run2: "handleValidatePMID offline_client
      (JObj [(''pmid'', JStr ''31452104'')]) (0, []) = (r2, (1, [?failed]))"
    by (metis prod.collapse)
  have "r2 = Inr (not_found_payload (JStr ''31452104''))"
    using caught [where args = "JObj [(''pmid'', JStr ''31452104'')]" and r = r2 and w' = 1
        and calls' = "[?failed]"] run2
    by simp
  with run2 have 2: "fst (handler no_dates offline_client validate_pmid
      (JObj [(''pmid'', JStr ''31452104'')]) (0, [])) = Inr (not_found_payload (JStr ''31452104''))"
    by simp
  have "snd (handler no_dates offline_client get_cited_by (JObj [(''pmid'', JStr ''31452104'')]) (0, []))
      = (1, [(GetCitedBy (JStr ''31452104''), Some (Error ''Network Error''))])"
    by code_simp
  then obtain r3 where run3: "handler no_dates offline_client get_cited_by
      (JObj [(''pmid'', JStr ''31452104'')]) (0, [])
        = (r3, (1, [(GetCitedBy (JStr ''31452104''), Some (Error ''Network Error''))]))"
    by (metis prod.collapse)
  have "propagates (handler no_dates offline_client get_cited_by (JObj [(''pmid'', JStr ''31452104'')]))"
    using caught [where tool = get_cited_by] by simp
  with run3 have "r3 = Inl (Error ''Network Error'')"
    unfolding propagates_def by fastforce
  with run3 have 3: "fst (handler no_dates offline_client get_cited_by
      (JObj [(''pmid'', JStr ''31452104'')]) (0, [])) = Inl (Error ''Network Error'')"
    by simp
  from 1 2 3 show ?thesis by blast
qed

text \<open>
  C10, as stated, fails in its last clause: \<^verbatim>\<open>validate_pmid\<close> is another handler
  that catches a client failure and answers with an ordinary result.
\<close>

theorem upstream_failure_counterexample:
  "isValidPMID ''31452104''
   \<and> handler no_dates offline_client validate_pmid (JObj [(''pmid'', JStr ''31452104'')]) (0, [])
     = (Inr (not_found_payload (JStr ''31452104'')),
        (1, [(GetArticleDetails (JStr ''31452104''), Some (Error ''Network Error''))]))
   \<and> \<not> propagates (handler no_dates offline_client validate_pmid
                      (JObj [(''pmid'', JStr ''31452104'')]))"
proof -
  have v: "isValidPMID ''31452104''" by code_simp
  have run: "handler no_dates offline_client validate_pmid (JObj [(''pmid'', JStr ''31452104'')]) (0, [])
     = (Inr (not_found_payload (JStr ''31452104'')),
        (1, [(GetArticleDetails (JStr ''31452104''), Some (Error ''Network Error''))]))"
    by code_simp
  have "\<not> propagates (handler no_dates offline_client validate_pmid
                      (JObj [(''pmid'', JStr ''31452104'')]))"
  proof
    assume "propagates (handler no_dates offline_client validate_pmid
                      (JObj [(''pmid'', JStr ''31452104'')]))"
    with run have "Inr (not_found_payload (JStr ''31452104''))
        = (Inl (Error ''Network Error'') :: js_error + tool_result)"
      unfolding propagates_def by fastforce
    then show False by simp
  qed
  with v run show ?thesis by blast
qed

section \<open>The request gate\<close>

text \<open>
  \<^verbatim>\<open>RateLimiter\<close> runs on one thread: its code executes in atomic pieces, from one
  \<^verbatim>\<open>await\<close> to the next, in whatever order callers, timers and tasks give. The
  system below is the gate, the clock that \<^verbatim>\<open>Date.now()\<close> reads, the suspended
  activations of \<^verbatim>\<open>processQueue\<close>, and two logs: the tasks in the order they were
  passed to \<^verbatim>\<open>execute\<close>, and the tasks started, each with the time written to
  \<^verbatim>\<open>lastRequestTime\<close> just before it is called. Times are exact rationals, in
  milliseconds. A task is known by a name of type \<^typ>\<open>'a\<close>.
\<close>

record 'a RateLimiter =
  queue :: "'a list"
  processing :: bool
  lastRequestTime :: rat
  requestInterval :: rat

text \<open>\<^verbatim>\<open>constructor(requestsPerSecond)\<close>.\<close>

definition new_RateLimiter :: "rat \<Rightarrow> 'a RateLimiter" where
  "new_RateLimiter requestsPerSecond =
     \<lparr>queue = [], processing = False, lastRequestTime = 0,
      requestInterval = 1000 / requestsPerSecond\<rparr>"

text \<open>
  An activation of \<^verbatim>\<open>processQueue\<close> is suspended either in
  \<^verbatim>\<open>await this.sleep(...)\<close>, until its timer is due, or in \<^verbatim>\<open>await task()\<close>.
\<close>

datatype 'a drain = Sleeping rat | Awaiting 'a

record 'a system =
  gate :: "'a RateLimiter"
  clock :: rat
  drains :: "'a drain list"
  dispatched :: "('a \<times> rat) list"
  submitted :: "'a list"

definition init :: "rat \<Rightarrow> rat \<Rightarrow> 'a system" where
  "init requestsPerSecond t0 =
     \<lparr>gate = new_RateLimiter requestsPerSecond, clock = t0, drains = [], dispatched = [],
      submitted = []\<rparr>"

text \<open>
  \<^verbatim>\<open>const task = this.queue.shift(); if (task) { this.lastRequestTime = Date.now();
  await task(); }\<close>, up to the \<^verbatim>\<open>await\<close>, on a queue that is not empty.
\<close>

definition start_task :: "'a system \<Rightarrow> 'a system" where
  "start_task s =
     (case queue (gate s) of
        [] \<Rightarrow> s
      | task # rest \<Rightarrow>
          s\<lparr>gate := (gate s)\<lparr>queue := rest, lastRequestTime := clock s\<rparr>,
            dispatched := dispatched s @ [(task, clock s)],
            drains := drains s @ [Awaiting task]\<rparr>)"

text \<open>
  \<^verbatim>\<open>processQueue\<close> from its entry to its first \<^verbatim>\<open>await\<close>. A timer set for
  \<^verbatim>\<open>ms\<close> milliseconds is due \<^verbatim>\<open>timer ms\<close> milliseconds later.
\<close>

definition processQueue :: "(rat \<Rightarrow> rat) \<Rightarrow> 'a system \<Rightarrow> 'a system" where
  "processQueue timer s =
     (if queue (gate s) = [] then s\<lparr>gate := (gate s)\<lparr>processing := False\<rparr>\<rparr>
      else
        let s = s\<lparr>gate := (gate s)\<lparr>processing := True\<rparr>\<rparr>;
            now = clock s;
            timeSinceLastRequest = now - lastRequestTime (gate s)
        in if timeSinceLastRequest < requestInterval (gate s)
           then s\<lparr>drains := drains s @
                   [Sleeping (now + timer (requestInterval (gate s) - timeSinceLastRequest))]\<rparr>
           else start_task s)"

text \<open>
  After the sleep: the task is taken and started; did the queue hold none, the
  \<^verbatim>\<open>if (task)\<close> is skipped and \<^verbatim>\<open>this.processQueue()\<close> runs at once.
\<close>

definition after_sleep :: "(rat \<Rightarrow> rat) \<Rightarrow> 'a system \<Rightarrow> 'a system" where
  "after_sleep timer s = (if queue (gate s) = [] then processQueue timer s else start_task s)"

text \<open>
  \<^verbatim>\<open>execute(fn)\<close>: \<^verbatim>\<open>this.queue.push(...); if (!this.processing) this.processQueue()\<close>.
\<close>

definition execute :: "(rat \<Rightarrow> rat) \<Rightarrow> 'a \<Rightarrow> 'a system \<Rightarrow> 'a system" where
  "execute timer fn s =
     (let s = s\<lparr>gate := (gate s)\<lparr>queue := queue (gate s) @ [fn]\<rparr>,
                submitted := submitted s @ [fn]\<rparr>
      in if \<not> processing (gate s) then processQueue timer s else s)"

text \<open>
  What can happen next: a caller submits a task; time passes; the timer of a sleeping
  activation, being due, fires; the task an activation awaits settles, and the
  activation goes on to \<^verbatim>\<open>this.processQueue()\<close>.
\<close>

datatype 'a event = Execute 'a | Tick rat | Wake nat | Settle nat

definition remove_nth :: "nat \<Rightarrow> 'b list \<Rightarrow> 'b list" where
  "remove_nth i xs = take i xs @ drop (Suc i) xs"

fun step :: "(rat \<Rightarrow> rat) \<Rightarrow> 'a event \<Rightarrow> 'a system \<Rightarrow> 'a system option" where
  "step timer (Execute fn) s = Some (execute timer fn s)"
| "step timer (Tick d) s = (if 0 \<le> d then Some (s\<lparr>clock := clock s + d\<rparr>) else None)"
| "step timer (Wake i) s =
     (if i < length (drains s) then
        (case drains s ! i of
           Sleeping due \<Rightarrow>
             (if due \<le> clock s
              then Some (after_sleep timer (s\<lparr>drains := remove_nth i (drains s)\<rparr>))
              else None)
         | Awaiting task \<Rightarrow> None)
      else None)"
| "step timer (Settle i) s =
     (if i < length (drains s) then
        (case drains s ! i of
           Awaiting task \<Rightarrow> Some (processQueue timer (s\<lparr>drains := remove_nth i (drains s)\<rparr>))
         | Sleeping due \<Rightarrow> None)
      else None)"

fun run :: "(rat \<Rightarrow> rat) \<Rightarrow> 'a event list \<Rightarrow> 'a system \<Rightarrow> 'a system option" where
  "run timer [] s = Some s"
| "run timer (ev # evs) s = (case step timer ev s of None \<Rightarrow> None | Some s' \<Rightarrow> run timer evs s')"


subsection \<open>The invariant of the gate\<close>















text \<open>
  The hypothesis on the timer cannot be dropped. With a timer that rounds a fractional
  delay down to whole milliseconds, the second of two tasks submitted together to
  \<^verbatim>\<open>RateLimiter(3)\<close> can start 333 milliseconds after the first, less than
  \<^verbatim>\<open>1000/3\<close>.
\<close>

lemma rounding_timer_starts_early:
  "\<exists>s. run (\<lambda>ms. of_int \<lfloor>ms\<rfloor>) [Execute ''a'', Execute ''b'', Settle 0, Tick 333, Wake 0]
          (init 3 1000) = Some s
       \<and> dispatched s = [(''a'', 1000), (''b'', 1333)]
       \<and> (1333 - 1000 :: rat) < 1000 / 3"
proof -
  define s :: "string system" where
    "s = \<lparr>gate = \<lparr>queue = [], processing = True, lastRequestTime = 1333,
                   requestInterval = 1000 / 3\<rparr>,
          clock = 1333, drains = [Awaiting ''b''],
          dispatched = [(''a'', 1000), (''b'', 1333)],
          submitted = [''a'', ''b'']\<rparr>"
  have "run (\<lambda>ms. of_int \<lfloor>ms\<rfloor>) [Execute ''a'', Execute ''b'', Settle 0, Tick 333, Wake 0]
          (init 3 1000) = Some s"
    unfolding s_def by code_simp
  moreover have "dispatched s = [(''a'', 1000), (''b'', 1333)]" by (simp add: s_def)
  ultimately show ?thesis by auto
qed

end
